theory Spec2Isabelle
  imports Main "HOL-Library.AList"
begin

section \<open>AeroLaunch: the model of \<^verbatim>\<open>src/main.py\<close>\<close>

text \<open>
  The program keeps a list of \<^verbatim>\<open>FlightApp\<close> objects in
  \<^verbatim>\<open>MainWindow.available_apps\<close>, persists it per platform in one JSON file,
  probes the host for installation paths and launches the checked entries.  The model
  passes the state explicitly; everything the program asks of its host (the platform
  name, \<^verbatim>\<open>str.lower\<close>, the file system, the environment, the Windows registry,
  \<^verbatim>\<open>mdfind\<close>, \<^verbatim>\<open>subprocess.Popen\<close>) is a field of the record \<open>env\<close>; what the user enters in
  a dialog is an argument of the operation that opens the dialog; every
  \<^verbatim>\<open>QMessageBox\<close> call is logged in the state.
\<close>

subsection \<open>Strings\<close>

text \<open>
  A Python string is modelled by a \<open>string\<close>: an ASCII string by its characters, any
  other string by the bytes that encode it.  The empty string is the empty list.

  Lowering of the letters A to Z: what \<^verbatim>\<open>str.lower()\<close> returns on a string of ASCII
  characters.  The program's own comparisons go through the field \<open>str_lower\<close> of the
  host below, which stands for \<^verbatim>\<open>str.lower()\<close> on every string; this function is the
  \<open>str_lower\<close> of the example host and is applied to ASCII names only.
\<close>

definition lower_char :: "char \<Rightarrow> char" where
  "lower_char c =
     (let n = (of_char c :: nat) in if 65 \<le> n \<and> n \<le> 90 then char_of (n + 32) else c)"

definition lower :: "string \<Rightarrow> string" where
  "lower s = map lower_char s"

text \<open>\<^verbatim>\<open>str.isspace()\<close> on one ASCII character, and \<^verbatim>\<open>str.strip()\<close>.\<close>

definition isspace :: "char \<Rightarrow> bool" where
  "isspace c = (let n = (of_char c :: nat) in (9 \<le> n \<and> n \<le> 13) \<or> (28 \<le> n \<and> n \<le> 32))"

definition strip :: "string \<Rightarrow> string" where
  "strip s = rev (dropWhile isspace (rev (dropWhile isspace s)))"

text \<open>\<^verbatim>\<open>s.split('\n')\<close>: the pieces between line feeds; always at least one piece.\<close>

fun split_lines :: "string \<Rightarrow> string list" where
  "split_lines [] = [[]]"
| "split_lines (c # cs) =
     (if c = CHR 0x0A then [] # split_lines cs
      else (case split_lines cs of l # ls \<Rightarrow> (c # l) # ls | [] \<Rightarrow> [[c]]))"

definition endswith :: "string \<Rightarrow> string \<Rightarrow> bool" where
  "endswith s suffix = (length suffix \<le> length s \<and> drop (length s - length suffix) s = suffix)"

subsection \<open>JSON values and the configuration file\<close>

text \<open>
  What \<^verbatim>\<open>json.load\<close> returns.  An object is a Python \<^verbatim>\<open>dict\<close>: an association
  list read with \<open>map_of\<close> and written with \<open>AList.update\<close> (a present key keeps its
  place, a new key goes last).  Numbers are the integers; the program writes none.
\<close>

datatype json =
    JNull
  | JBool bool
  | JNum int
  | JStr string
  | JArr "json list"
  | JObj "(string \<times> json) list"

text \<open>\<^verbatim>\<open>d.get(key, default)\<close> on a dict.\<close>

definition dict_get :: "(string \<times> json) list \<Rightarrow> string \<Rightarrow> json \<Rightarrow> json" where
  "dict_get kvs k d = (case map_of kvs k of None \<Rightarrow> d | Some v \<Rightarrow> v)"

text \<open>Python's truth value of a JSON value (\<^verbatim>\<open>if apps_data:\<close>).\<close>

fun truthy :: "json \<Rightarrow> bool" where
  "truthy JNull = False"
| "truthy (JBool b) = b"
| "truthy (JNum n) = (n \<noteq> 0)"
| "truthy (JStr s) = (s \<noteq> [])"
| "truthy (JArr xs) = (xs \<noteq> [])"
| "truthy (JObj kvs) = (kvs \<noteq> [])"

text \<open>The exceptions of the program that the model raises.\<close>

datatype error = JSONDecodeError | UnicodeDecodeError | AttributeError | TypeError | OSError

text \<open>
  The file at \<^verbatim>\<open>CONFIG_FILE\<close>, as the program can observe it:
  \<^item> \<open>Absent\<close>: \<^verbatim>\<open>os.path.exists\<close> is false;
  \<^item> \<open>Unreadable\<close>: the file exists and opening or reading it raises an
    \<^verbatim>\<open>OSError\<close>;
  \<^item> \<open>Undecodable\<close>: the bytes of the file are no text in the encoding of
    \<^verbatim>\<open>open\<close> (so they are no valid JSON either), and reading raises
    \<^verbatim>\<open>UnicodeDecodeError\<close>, which is no \<^verbatim>\<open>json.JSONDecodeError\<close>;
  \<^item> \<open>Garbled\<close>: the file is text and \<^verbatim>\<open>json.load\<close> raises
    \<^verbatim>\<open>json.JSONDecodeError\<close>; an empty file and a proper prefix of a dumped object
    are of this kind;
  \<^item> \<open>Doc v\<close>: \<^verbatim>\<open>json.load\<close> returns \<open>v\<close>.
  \<^verbatim>\<open>json.dump\<close> of a value followed by \<^verbatim>\<open>json.load\<close> returns that value: a
  completed write of \<open>v\<close> leaves the file \<open>Doc v\<close>.
\<close>

datatype file_content = Absent | Unreadable | Undecodable | Garbled | Doc json

definition read_json :: "file_content \<Rightarrow> error + json" where
  \<comment> \<open>\<^verbatim>\<open>with open(CONFIG_FILE, 'r') as f: json.load(f)\<close>, for a file that exists\<close>
  "read_json f =
     (case f of
        Doc v \<Rightarrow> Inr v
      | Garbled \<Rightarrow> Inl JSONDecodeError
      | Undecodable \<Rightarrow> Inl UnicodeDecodeError
      | Unreadable \<Rightarrow> Inl OSError
      | Absent \<Rightarrow> Inl OSError)"

subsection \<open>FlightApp\<close>

text \<open>
  \<^verbatim>\<open>class FlightApp\<close>: \<open>name\<close> is a \<^verbatim>\<open>str\<close>, \<open>path\<close> is \<^verbatim>\<open>None\<close> or a
  \<^verbatim>\<open>str\<close>, \<open>default_checked\<close> a \<^verbatim>\<open>bool\<close>: the types of every object the program
  itself constructs and of every entry it writes.
\<close>

record FlightApp =
  name :: string
  path :: "string option"
  default_checked :: bool

definition path_json :: "string option \<Rightarrow> json" where
  "path_json p = (case p of None \<Rightarrow> JNull | Some s \<Rightarrow> JStr s)"

definition to_dict :: "FlightApp \<Rightarrow> json" where
  "to_dict app =
     JObj [(''name'', JStr (name app)),
           (''path'', path_json (path app)),
           (''default_checked'', JBool (default_checked app))]"

text \<open>
  \<^verbatim>\<open>FlightApp.from_dict(data)\<close> calls \<^verbatim>\<open>data.get\<close> three times: on anything but a
  dict that raises \<^verbatim>\<open>AttributeError\<close>.  On a dict it never raises and never checks a
  type; the result \<open>Inr None\<close> stands for an object one of whose fields is not of the
  types above (a hand-edited entry), which the typed record cannot hold.
\<close>

definition from_dict :: "json \<Rightarrow> error + FlightApp option" where
  "from_dict data =
     (case data of
        JObj kvs \<Rightarrow>
          Inr (case (dict_get kvs ''name'' JNull,
                     dict_get kvs ''path'' JNull,
                     dict_get kvs ''default_checked'' (JBool False)) of
                 (JStr n, JNull, JBool c) \<Rightarrow>
                   Some \<lparr>name = n, path = None, default_checked = c\<rparr>
               | (JStr n, JStr p, JBool c) \<Rightarrow>
                   Some \<lparr>name = n, path = Some p, default_checked = c\<rparr>
               | _ \<Rightarrow> None)
      | _ \<Rightarrow> Inl AttributeError)"

text \<open>
  \<^verbatim>\<open>[FlightApp.from_dict(app_dict) for app_dict in apps_data]\<close> over the elements of a
  list: the first element that is no dict raises.
\<close>

fun from_dicts :: "json list \<Rightarrow> error + FlightApp list option" where
  "from_dicts [] = Inr (Some [])"
| "from_dicts (d # ds) =
     (case from_dict d of
        Inl err \<Rightarrow> Inl err
      | Inr a \<Rightarrow>
          (case from_dicts ds of
             Inl err \<Rightarrow> Inl err
           | Inr r \<Rightarrow>
               Inr (case (a, r) of
                      (Some app, Some apps) \<Rightarrow> Some (app # apps)
                    | _ \<Rightarrow> None)))"

text \<open>
  The comprehension over a truthy \<^verbatim>\<open>apps_data\<close> of any type: a non-empty string
  or dict iterates over strings, on which \<^verbatim>\<open>from_dict\<close> raises
  \<^verbatim>\<open>AttributeError\<close>; a number or \<^verbatim>\<open>True\<close> is not iterable.
\<close>

definition load_apps :: "json \<Rightarrow> error + FlightApp list option" where
  "load_apps apps_data =
     (case apps_data of
        JArr ds \<Rightarrow> from_dicts ds
      | JStr s \<Rightarrow> Inl AttributeError
      | JObj kvs \<Rightarrow> Inl AttributeError
      | _ \<Rightarrow> Inl TypeError)"

subsection \<open>Host, messages and state\<close>

text \<open>The two registry roots \<^verbatim>\<open>_find_app_path\<close> tries, and what the registry answers.\<close>

datatype hkey = HKEY_LOCAL_MACHINE | HKEY_CURRENT_USER

datatype reg_open =
    KeyMissing    \<comment> \<open>\<^verbatim>\<open>winreg.OpenKey\<close> raises \<^verbatim>\<open>FileNotFoundError\<close>\<close>
  | KeyFault      \<comment> \<open>it raises another exception\<close>
  | KeyOpened

datatype reg_value =
    ValueMissing  \<comment> \<open>\<^verbatim>\<open>winreg.QueryValueEx\<close> raises \<^verbatim>\<open>FileNotFoundError\<close>\<close>
  | ValueFault    \<comment> \<open>another exception, there or in joining the value to the file name\<close>
  | Value string

text \<open>What \<^verbatim>\<open>subprocess.run(cmd, capture_output=True, text=True, check=True)\<close> does.\<close>

datatype run_result =
    Completed string       \<comment> \<open>exit status 0, with this standard output\<close>
  | CalledProcessError     \<comment> \<open>non-zero exit status\<close>
  | FileNotFoundError      \<comment> \<open>no such tool\<close>
  | OtherRunError          \<comment> \<open>any exception the \<^verbatim>\<open>except\<close> clause does not name\<close>

text \<open>The three forms of \<^verbatim>\<open>subprocess.Popen\<close> in \<^verbatim>\<open>_launch_selected_applications\<close>.\<close>

datatype popen_call =
    OpenBundle string   \<comment> \<open>\<^verbatim>\<open>Popen(["open", "-a", path])\<close>\<close>
  | Shell string        \<comment> \<open>\<^verbatim>\<open>Popen(path, shell=True)\<close>\<close>
  | Direct string       \<comment> \<open>\<^verbatim>\<open>Popen([path])\<close>\<close>

text \<open>
  What happens at \<^verbatim>\<open>with open(CONFIG_FILE, 'w') as f: json.dump(existing_config, f)\<close>:
  the file is opened, which truncates it, and then written.
\<close>

datatype write_result =
    Written      \<comment> \<open>both steps succeed\<close>
  | OpenFailed   \<comment> \<open>\<^verbatim>\<open>open\<close> raises: the file stays as it is\<close>
  | DumpFailed   \<comment> \<open>the file is opened and truncated, and the write raises before it ends\<close>

record env =
  platform :: string                                \<comment> \<open>\<^verbatim>\<open>sys.platform\<close>\<close>
  str_lower :: "string \<Rightarrow> string"                   \<comment> \<open>\<^verbatim>\<open>str.lower\<close>\<close>
  write_outcome :: write_result                     \<comment> \<open>the outcome of writing the file\<close>
  environ :: "string \<Rightarrow> string option"              \<comment> \<open>\<^verbatim>\<open>os.environ.get\<close>\<close>
  path_exists :: "string \<Rightarrow> bool"                   \<comment> \<open>\<^verbatim>\<open>os.path.exists\<close>\<close>
  path_join :: "string list \<Rightarrow> string"               \<comment> \<open>\<^verbatim>\<open>os.path.join\<close>\<close>
  expanduser :: "string \<Rightarrow> string"                  \<comment> \<open>\<^verbatim>\<open>os.path.expanduser\<close>\<close>
  winreg_loaded :: bool                             \<comment> \<open>the module \<^verbatim>\<open>winreg\<close> was imported\<close>
  open_key :: "hkey \<Rightarrow> string \<Rightarrow> reg_open"           \<comment> \<open>\<^verbatim>\<open>winreg.OpenKey\<close>\<close>
  query_value :: "hkey \<Rightarrow> string \<Rightarrow> string \<Rightarrow> reg_value"  \<comment> \<open>\<^verbatim>\<open>winreg.QueryValueEx\<close>\<close>
  mdfind :: "string \<Rightarrow> run_result"
    \<comment> \<open>\<^verbatim>\<open>subprocess.run\<close> of \<^verbatim>\<open>mdfind\<close> with the query for a bundle identifier\<close>
  popen :: "popen_call \<Rightarrow> bool"                     \<comment> \<open>\<^verbatim>\<open>Popen\<close> returns (or raises)\<close>

text \<open>The \<^verbatim>\<open>QMessageBox\<close> calls of the program, by kind.\<close>

datatype msg =
    ConfigError              \<comment> \<open>critical "Config Error", after \<^verbatim>\<open>JSONDecodeError\<close>\<close>
  | ConfigErrorUnexpected    \<comment> \<open>critical "Config Error", after any other exception\<close>
  | ConfigSaveError          \<comment> \<open>critical "Config Save Error"\<close>
  | DuplicateName string     \<comment> \<open>warning "Duplicate Name", with the name refused\<close>
  | EmptyName                \<comment> \<open>warning "Input Error": "Application name cannot be empty."\<close>
  | EmptyPath                \<comment> \<open>warning "Input Error": "Application path cannot be empty."\<close>
  | AppAdded string          \<comment> \<open>information "App Added"\<close>
  | EditComplete string      \<comment> \<open>information "Edit Complete"\<close>
  | DeleteComplete string    \<comment> \<open>information "Delete Complete"\<close>
  | Cancelled                \<comment> \<open>information "Cancelled"\<close>
  | MissingPath string       \<comment> \<open>warning "Missing Path", with the entry's name\<close>
  | LaunchError string       \<comment> \<open>warning "Launch Error", with the entry's name\<close>
  | LaunchComplete nat       \<comment> \<open>information "Launch Complete", with \<^verbatim>\<open>launched_count\<close>\<close>
  | LaunchNothing            \<comment> \<open>information "Launch": nothing selected or ready\<close>
  | Discovering              \<comment> \<open>information "Discovering"\<close>
  | DiscoveryComplete nat    \<comment> \<open>information "Discovery Complete", with \<^verbatim>\<open>found_count\<close>\<close>
  | DiscoveryNothing         \<comment> \<open>information "Discovery Complete": nothing new\<close>

record state =
  available_apps :: "FlightApp list"     \<comment> \<open>\<^verbatim>\<open>self.available_apps\<close>\<close>
  config_file :: file_content            \<comment> \<open>the file at \<^verbatim>\<open>CONFIG_FILE\<close>\<close>
  messages :: "msg list"                 \<comment> \<open>the message boxes shown so far, oldest first\<close>
  popen_calls :: "popen_call list"       \<comment> \<open>the \<^verbatim>\<open>Popen\<close> calls made so far, oldest first\<close>

definition notify :: "state \<Rightarrow> msg \<Rightarrow> state" where
  "notify s m = s\<lparr>messages := messages s @ [m]\<rparr>"

subsection \<open>Saving and loading the configuration\<close>

text \<open>\<^verbatim>\<open>existing_config[current_platform] = apps_for_platform\<close>: only a dict takes it.\<close>

definition setitem :: "json \<Rightarrow> string \<Rightarrow> json \<Rightarrow> error + json" where
  "setitem d k v = (case d of JObj kvs \<Rightarrow> Inr (JObj (AList.update k v kvs)) | _ \<Rightarrow> Inl TypeError)"

text \<open>
  The document \<^verbatim>\<open>_save_config\<close> starts from: \<^verbatim>\<open>{}\<close> when there is no file or
  \<^verbatim>\<open>json.load\<close> raises \<^verbatim>\<open>JSONDecodeError\<close>, what \<^verbatim>\<open>json.load\<close> returns
  otherwise; any other exception leaves the inner \<^verbatim>\<open>try\<close>.
\<close>

definition existing_config :: "file_content \<Rightarrow> error + json" where
  "existing_config f =
     (if f = Absent then Inr (JObj [])
      else (case read_json f of
              Inl JSONDecodeError \<Rightarrow> Inr (JObj [])
            | Inl err \<Rightarrow> Inl err
            | Inr v \<Rightarrow> Inr v))"

definition save_config :: "env \<Rightarrow> state \<Rightarrow> state" where
  "save_config e s =
     (let apps_for_platform = JArr (map to_dict (available_apps s)) in
      case existing_config (config_file s) of
        Inl err \<Rightarrow> notify s ConfigSaveError
      | Inr existing \<Rightarrow>
          (case setitem existing (platform e) apps_for_platform of
             Inl err \<Rightarrow> notify s ConfigSaveError
           | Inr doc \<Rightarrow>
               (case write_outcome e of
                  Written \<Rightarrow> s\<lparr>config_file := Doc doc\<rparr>
                | OpenFailed \<Rightarrow> notify s ConfigSaveError
                | DumpFailed \<Rightarrow> notify (s\<lparr>config_file := Garbled\<rparr>) ConfigSaveError)))"

text \<open>The list \<^verbatim>\<open>MainWindow.__init__\<close> installs before it calls \<^verbatim>\<open>_load_config\<close>.\<close>

definition initial_apps :: "FlightApp list" where
  "initial_apps =
     [\<lparr>name = ''Microsoft Flight Simulator'', path = None, default_checked = True\<rparr>,
      \<lparr>name = ''Elevatex'', path = None, default_checked = False\<rparr>,
      \<lparr>name = ''Navigraph Charts'', path = None, default_checked = False\<rparr>]"

text \<open>The list both \<^verbatim>\<open>except\<close> branches of \<^verbatim>\<open>_load_config\<close> install.\<close>

definition reset_apps :: "FlightApp list" where
  "reset_apps =
     [\<lparr>name = ''Microsoft Flight Simulator'', path = None, default_checked = True\<rparr>,
      \<lparr>name = ''ElevateX'', path = None, default_checked = False\<rparr>,
      \<lparr>name = ''Navigraph Charts'', path = None, default_checked = False\<rparr>]"

text \<open>
  The body of the \<^verbatim>\<open>try\<close> in \<^verbatim>\<open>_load_config\<close> up to the comprehension:
  \<open>Inr None\<close> when \<^verbatim>\<open>apps_data\<close> is falsy, \<open>Inr (Some r)\<close> with the result of the
  comprehension otherwise.
\<close>

definition read_apps :: "string \<Rightarrow> file_content \<Rightarrow> error + FlightApp list option option" where
  "read_apps current_platform f =
     (case read_json f of
        Inl err \<Rightarrow> Inl err
      | Inr config_data \<Rightarrow>
          (case config_data of
             JObj kvs \<Rightarrow>
               (let apps_data = dict_get kvs current_platform (JArr []) in
                if truthy apps_data then
                  (case load_apps apps_data of Inl err \<Rightarrow> Inl err | Inr r \<Rightarrow> Inr (Some r))
                else Inr None)
           | _ \<Rightarrow> Inl AttributeError))"

text \<open>
  \<^verbatim>\<open>_load_config\<close>.  The result is \<open>None\<close> only where the comprehension built an
  object outside the typed record (see \<open>from_dict\<close>).
\<close>

definition load_config :: "env \<Rightarrow> state \<Rightarrow> state option" where
  "load_config e s =
     (if config_file s = Absent then Some (save_config e s)
      else (case read_apps (platform e) (config_file s) of
              Inr (Some (Some apps)) \<Rightarrow> Some (s\<lparr>available_apps := apps\<rparr>)
            | Inr (Some None) \<Rightarrow> None
            | Inr None \<Rightarrow> Some (save_config e s)
            | Inl JSONDecodeError \<Rightarrow>
                Some (save_config e ((notify s ConfigError)\<lparr>available_apps := reset_apps\<rparr>))
            | Inl err \<Rightarrow>
                Some (save_config e
                        ((notify s ConfigErrorUnexpected)\<lparr>available_apps := reset_apps\<rparr>))))"

subsection \<open>The registry operations\<close>

text \<open>
  \<^verbatim>\<open>any(app.name.lower() == n.lower() for app in apps)\<close>.
\<close>

definition name_exists :: "env \<Rightarrow> string \<Rightarrow> FlightApp list \<Rightarrow> bool" where
  "name_exists e n apps = list_ex (\<lambda>app. str_lower e (name app) = str_lower e n) apps"

text \<open>
  The objects of \<^verbatim>\<open>available_apps\<close> are pairwise distinct objects, and the list
  widget holds one item per object, in order: an object is identified by its index,
  \<^verbatim>\<open>app != app_to_edit\<close> (identity, the class defines no \<^verbatim>\<open>__eq__\<close>) keeps the
  other indices, and \<^verbatim>\<open>available_apps.remove(app_to_delete)\<close> drops that index.
\<close>

definition others :: "nat \<Rightarrow> 'a list \<Rightarrow> 'a list" where
  "others i xs = take i xs @ drop (Suc i) xs"

text \<open>
  \<^verbatim>\<open>_add_custom_application\<close>.  \<open>prompt\<close> is what \<^verbatim>\<open>QInputDialog.getText\<close>
  returns, \<open>details\<close> is \<open>None\<close> when the details dialog is cancelled and the pair of
  \<^verbatim>\<open>get_details()\<close> when it is accepted.
\<close>

definition add_custom_application ::
  "env \<Rightarrow> state \<Rightarrow> string \<times> bool \<Rightarrow> (string \<times> string) option \<Rightarrow> state" where
  "add_custom_application e s prompt details =
     (case prompt of (app_name, ok) \<Rightarrow>
        if ok \<and> app_name \<noteq> [] then
          if name_exists e app_name (available_apps s) then notify s (DuplicateName app_name)
          else
            (case details of
               Some (new_app_name, new_app_path) \<Rightarrow>
                 if new_app_path = [] then notify s EmptyPath
                 else if str_lower e new_app_name \<noteq> str_lower e app_name \<and>
                         name_exists e new_app_name (available_apps s)
                 then notify s (DuplicateName new_app_name)
                 else
                   notify
                     (save_config e
                        (s\<lparr>available_apps := available_apps s @
                             [\<lparr>name = new_app_name, path = Some new_app_path,
                               default_checked = False\<rparr>]\<rparr>))
                     (AppAdded new_app_name)
             | None \<Rightarrow> notify s Cancelled)
        else if ok \<and> app_name = [] then notify s EmptyName
        else notify s Cancelled)"

text \<open>
  \<^verbatim>\<open>_edit_selected_application\<close>.  \<open>selected\<close> is the index of the selected item,
  \<open>None\<close> when nothing is selected; an index past the list is no item of the widget
  and is treated like no selection.
\<close>

definition edit_selected_application ::
  "env \<Rightarrow> state \<Rightarrow> nat option \<Rightarrow> (string \<times> string) option \<Rightarrow> state" where
  "edit_selected_application e s selected details =
     (case selected of
        None \<Rightarrow> s
      | Some i \<Rightarrow>
          if length (available_apps s) \<le> i then s
          else
            (let app_to_edit = available_apps s ! i in
             case details of
               Some (new_name, new_path) \<Rightarrow>
                 if new_name = [] then notify s EmptyName
                 else if new_path = [] then notify s EmptyPath
                 else if str_lower e new_name \<noteq> str_lower e (name app_to_edit) \<and>
                         name_exists e new_name (others i (available_apps s))
                 then notify s (DuplicateName new_name)
                 else
                   notify
                     (save_config e
                        (s\<lparr>available_apps := (available_apps s)
                             [i := app_to_edit\<lparr>name := new_name, path := Some new_path\<rparr>]\<rparr>))
                     (EditComplete new_name)
             | None \<Rightarrow> notify s Cancelled))"

text \<open>\<^verbatim>\<open>_delete_selected_application\<close>; \<open>reply\<close> is true for \<^verbatim>\<open>QMessageBox.Yes\<close>.\<close>

definition delete_selected_application :: "env \<Rightarrow> state \<Rightarrow> nat option \<Rightarrow> bool \<Rightarrow> state" where
  "delete_selected_application e s selected reply =
     (case selected of
        None \<Rightarrow> s
      | Some i \<Rightarrow>
          if length (available_apps s) \<le> i then s
          else if reply then
            notify (save_config e (s\<lparr>available_apps := others i (available_apps s)\<rparr>))
              (DeleteComplete (name (available_apps s ! i)))
          else notify s Cancelled)"

text \<open>\<^verbatim>\<open>_handle_item_checked_changed\<close> for the item at index \<open>i\<close>.\<close>

definition handle_item_checked_changed :: "env \<Rightarrow> state \<Rightarrow> nat \<Rightarrow> bool \<Rightarrow> state" where
  "handle_item_checked_changed e s i checked =
     (if length (available_apps s) \<le> i then s
      else save_config e
             (s\<lparr>available_apps := (available_apps s)
                  [i := (available_apps s ! i)\<lparr>default_checked := checked\<rparr>]\<rparr>))"

text \<open>A user action on the registry, with what the user enters, and a run of actions.\<close>

datatype action =
    Add "string \<times> bool" "(string \<times> string) option"
  | Edit "nat option" "(string \<times> string) option"
  | Delete "nat option" bool

fun perform :: "env \<Rightarrow> state \<Rightarrow> action \<Rightarrow> state" where
  "perform e s (Add prompt details) = add_custom_application e s prompt details"
| "perform e s (Edit selected details) = edit_selected_application e s selected details"
| "perform e s (Delete selected reply) = delete_selected_application e s selected reply"

definition run :: "env \<Rightarrow> state \<Rightarrow> action list \<Rightarrow> state" where
  "run e s acts = foldl (perform e) s acts"

text \<open>No two entries have names that are equal when lowered with \<^verbatim>\<open>str.lower\<close>.\<close>

definition unique_names :: "env \<Rightarrow> FlightApp list \<Rightarrow> bool" where
  "unique_names e apps = distinct (map (\<lambda>app. str_lower e (name app)) apps)"

subsection \<open>Discovery\<close>

text \<open>
  One value of the dict \<^verbatim>\<open>app_info\<close> (Windows).  A sub-directory built with
  \<^verbatim>\<open>os.path.join\<close> in the source is built with \<open>path_join\<close> here; a registry key is
  a raw string with backslashes.
\<close>

record win_info =
  exe :: string
  subdirs :: "string list"
  registry_key :: "string option"

definition backslashed :: "string list \<Rightarrow> string" where
  "backslashed parts = foldr (\<lambda>part rest. if rest = [] then part else part @ CHR 0x5C # rest) parts []"

definition app_info :: "env \<Rightarrow> string \<Rightarrow> win_info option" where
  "app_info e app_name =
     (if app_name = ''Microsoft Flight Simulator'' then
        Some \<lparr>exe = ''FlightSimulator.exe'',
              subdirs =
                [path_join e [''Steam'', ''steamapps'', ''common'', ''MicrosoftFlightSimulator''],
                 path_join e [''WpSystem'', ''Microsoft.FlightSimulator_8wekyb3d8bbwe'',
                              ''LocalCache'', ''Packages'',
                              ''Microsoft.FlightSimulator_8wekyb3d8bbwe'']],
              registry_key =
                Some (backslashed [''SOFTWARE'', ''Microsoft'', ''Windows'', ''CurrentVersion'',
                                   ''Uninstall'', ''Steam App 1250410''])\<rparr>
      else if app_name = ''ElevateX'' then
        Some \<lparr>exe = ''Elevatex.exe'',
              subdirs = [''Elevatex'', ''ElevateX Beta''],
              registry_key = None\<rparr>
      else if app_name = ''Navigraph Charts'' then
        Some \<lparr>exe = ''Navigraph Charts.exe'',
              subdirs = [''Navigraph'', ''Navigraph Charts''],
              registry_key = Some (backslashed [''SOFTWARE'', ''Navigraph'', ''Charts''])\<rparr>
      else None)"

text \<open>The base directories that are set and not empty, in the order of the source.\<close>

definition program_files_paths :: "env \<Rightarrow> string list" where
  "program_files_paths e =
     filter (\<lambda>p. p \<noteq> [])
       (List.map_filter (environ e) [''ProgramFiles'', ''ProgramFiles(x86)'', ''LocalAppData''])"

text \<open>The inner loop \<^verbatim>\<open>for subdir in potential_subdirs\<close> under one base directory.\<close>

fun probe_subdirs :: "env \<Rightarrow> string \<Rightarrow> string \<Rightarrow> string list \<Rightarrow> string option" where
  "probe_subdirs e base_path exe_name [] = None"
| "probe_subdirs e base_path exe_name (subdir # rest) =
     (let full_path = path_join e [base_path, subdir, exe_name] in
      if path_exists e full_path then Some full_path
      else probe_subdirs e base_path exe_name rest)"

text \<open>
  The outer loop \<^verbatim>\<open>for base_path in program_files_paths\<close>: the sub-directories of a
  base directory, then \<^verbatim>\<open>direct_path\<close> under the same base directory, then the next
  base directory.
\<close>

fun probe_bases :: "env \<Rightarrow> string \<Rightarrow> string \<Rightarrow> string list \<Rightarrow> string list \<Rightarrow> string option" where
  "probe_bases e app_name exe_name potential_subdirs [] = None"
| "probe_bases e app_name exe_name potential_subdirs (base_path # rest) =
     (case probe_subdirs e base_path exe_name potential_subdirs of
        Some full_path \<Rightarrow> Some full_path
      | None \<Rightarrow>
          (let direct_path = path_join e [base_path, app_name, exe_name] in
           if path_exists e direct_path then Some direct_path
           else probe_bases e app_name exe_name potential_subdirs rest))"

text \<open>
  One \<^verbatim>\<open>QueryValueEx\<close> with its \<^verbatim>\<open>try\<close>: \<open>Inr None\<close> when the value is missing or
  the candidate does not exist, \<open>Inl\<close> when an exception leaves for the outer
  \<^verbatim>\<open>except Exception\<close>.
\<close>

definition registry_candidate ::
  "env \<Rightarrow> hkey \<Rightarrow> string \<Rightarrow> string \<Rightarrow> string \<Rightarrow> error + string option" where
  "registry_candidate e hkey_root key value_name exe_name =
     (case query_value e hkey_root key value_name of
        ValueMissing \<Rightarrow> Inr None
      | ValueFault \<Rightarrow> Inl OSError
      | Value v \<Rightarrow>
          (let candidate_path = path_join e [v, exe_name] in
           if path_exists e candidate_path then Inr (Some candidate_path) else Inr None))"

text \<open>
  The loop over the registry roots.  A missing key continues with the next root; any other
  exception ends the loop in the outer \<^verbatim>\<open>except Exception\<close>, after which the function
  returns \<^verbatim>\<open>None\<close>.
\<close>

fun probe_registry :: "env \<Rightarrow> string \<Rightarrow> string \<Rightarrow> hkey list \<Rightarrow> string option" where
  "probe_registry e key exe_name [] = None"
| "probe_registry e key exe_name (hkey_root # rest) =
     (case open_key e hkey_root key of
        KeyMissing \<Rightarrow> probe_registry e key exe_name rest
      | KeyFault \<Rightarrow> None
      | KeyOpened \<Rightarrow>
          (case registry_candidate e hkey_root key ''InstallLocation'' exe_name of
             Inl err \<Rightarrow> None
           | Inr (Some candidate_path) \<Rightarrow> Some candidate_path
           | Inr None \<Rightarrow>
               (case registry_candidate e hkey_root key ''Path'' exe_name of
                  Inl err \<Rightarrow> None
                | Inr (Some candidate_path) \<Rightarrow> Some candidate_path
                | Inr None \<Rightarrow> probe_registry e key exe_name rest)))"

text \<open>The registry step: \<^verbatim>\<open>if winreg and registry_key:\<close>.\<close>

definition registry_step :: "env \<Rightarrow> win_info \<Rightarrow> string option" where
  "registry_step e info =
     (case registry_key info of
        None \<Rightarrow> None
      | Some key \<Rightarrow>
          if winreg_loaded e \<and> key \<noteq> [] then
            probe_registry e key (exe info) [HKEY_LOCAL_MACHINE, HKEY_CURRENT_USER]
          else None)"

text \<open>The branch \<^verbatim>\<open>sys.platform == "win32"\<close> of \<^verbatim>\<open>_find_app_path\<close>.\<close>

definition find_win32 :: "env \<Rightarrow> string \<Rightarrow> string option" where
  "find_win32 e app_name =
     (case app_info e app_name of
        None \<Rightarrow> None
      | Some info \<Rightarrow>
          (case probe_bases e app_name (exe info) (subdirs info) (program_files_paths e) of
             Some found \<Rightarrow> Some found
           | None \<Rightarrow> registry_step e info))"

text \<open>One value of the dict \<^verbatim>\<open>macos_app_info\<close>.\<close>

record mac_info =
  bundle_name :: string
  bundle_id :: "string option"

definition macos_app_info :: "string \<Rightarrow> mac_info option" where
  "macos_app_info app_name =
     (if app_name = ''Navigraph Charts'' then
        Some \<lparr>bundle_name = ''Navigraph Charts.app'', bundle_id = Some ''com.navigraph.charts''\<rparr>
      else None)"

text \<open>The loop over the lines \<^verbatim>\<open>mdfind\<close> printed.\<close>

fun first_bundle :: "env \<Rightarrow> string list \<Rightarrow> string option" where
  "first_bundle e [] = None"
| "first_bundle e (p # rest) =
     (if p \<noteq> [] \<and> endswith p ''.app'' \<and> path_exists e p then Some p else first_bundle e rest)"

text \<open>
  The branch \<^verbatim>\<open>sys.platform == "darwin"\<close>.  An exception of \<^verbatim>\<open>subprocess.run\<close> that
  the \<^verbatim>\<open>except\<close> clause does not name leaves the function.
\<close>

definition find_darwin :: "env \<Rightarrow> string \<Rightarrow> error + string option" where
  "find_darwin e app_name =
     (case macos_app_info app_name of
        None \<Rightarrow> Inr None
      | Some info \<Rightarrow>
          (let system_app_path = path_join e [''/Applications'', bundle_name info] in
           if path_exists e system_app_path then Inr (Some system_app_path)
           else
             (let user_app_path =
                    path_join e [expanduser e ''~/Applications'', bundle_name info] in
              if path_exists e user_app_path then Inr (Some user_app_path)
              else
                (case bundle_id info of
                   None \<Rightarrow> Inr None
                 | Some ident \<Rightarrow>
                     if ident = [] then Inr None
                     else
                       (case mdfind e ident of
                          Completed stdout \<Rightarrow> Inr (first_bundle e (split_lines (strip stdout)))
                        | CalledProcessError \<Rightarrow> Inr None
                        | FileNotFoundError \<Rightarrow> Inr None
                        | OtherRunError \<Rightarrow> Inl OSError)))))"

text \<open>\<^verbatim>\<open>_find_app_path\<close>.\<close>

definition find_app_path :: "env \<Rightarrow> string \<Rightarrow> error + string option" where
  "find_app_path e app_name =
     (if platform e = ''win32'' then Inr (find_win32 e app_name)
      else if platform e = ''darwin'' then find_darwin e app_name
      else Inr None)"

text \<open>The truth value of a path: \<^verbatim>\<open>None\<close> and the empty string are falsy.\<close>

definition path_set :: "string option \<Rightarrow> bool" where
  "path_set p = (case p of None \<Rightarrow> False | Some s \<Rightarrow> s \<noteq> [])"

text \<open>
  The body of the loop of \<^verbatim>\<open>_auto_discover_applications\<close> for one object, once
  \<^verbatim>\<open>_find_app_path\<close> has returned: the object after it, and what it adds to
  \<^verbatim>\<open>found_count\<close>.
\<close>

definition discover_one :: "FlightApp \<Rightarrow> string option \<Rightarrow> FlightApp \<times> nat" where
  "discover_one app_obj new_path =
     (let original_path = path app_obj in
      if path_set new_path \<and> new_path \<noteq> original_path then (app_obj\<lparr>path := new_path\<rparr>, 1)
      else if \<not> path_set (path app_obj) \<and> path_set new_path then (app_obj\<lparr>path := new_path\<rparr>, 1)
      else (app_obj, 0))"

text \<open>
  The loop over \<^verbatim>\<open>available_apps\<close>: the objects after it and \<^verbatim>\<open>found_count\<close>, or the
  exception that left it (the objects before the failing one keep their new paths).
\<close>

fun discover_apps :: "env \<Rightarrow> FlightApp list \<Rightarrow> FlightApp list \<times> (error + nat)" where
  "discover_apps e [] = ([], Inr 0)"
| "discover_apps e (app_obj # rest) =
     (case find_app_path e (name app_obj) of
        Inl err \<Rightarrow> (app_obj # rest, Inl err)
      | Inr new_path \<Rightarrow>
          (case discover_one app_obj new_path of (app_obj', k) \<Rightarrow>
             (case discover_apps e rest of
                (rest', Inl err) \<Rightarrow> (app_obj' # rest', Inl err)
              | (rest', Inr found_count) \<Rightarrow> (app_obj' # rest', Inr (k + found_count)))))"

text \<open>
  \<^verbatim>\<open>_auto_discover_applications\<close>; the second component is the exception that left it,
  if any (then nothing is saved and no count is reported).
\<close>

definition auto_discover_applications :: "env \<Rightarrow> state \<Rightarrow> state \<times> error option" where
  "auto_discover_applications e s =
     (let s1 = notify s Discovering in
      case discover_apps e (available_apps s1) of
        (apps, Inl err) \<Rightarrow> (s1\<lparr>available_apps := apps\<rparr>, Some err)
      | (apps, Inr found_count) \<Rightarrow>
          (notify (save_config e (s1\<lparr>available_apps := apps\<rparr>))
             (if 0 < found_count then DiscoveryComplete found_count else DiscoveryNothing),
           None))"

subsection \<open>Launching\<close>

text \<open>\<^verbatim>\<open>app.path and os.path.exists(app.path)\<close>.\<close>

definition launchable :: "env \<Rightarrow> FlightApp \<Rightarrow> bool" where
  "launchable e app = (case path app of None \<Rightarrow> False | Some p \<Rightarrow> p \<noteq> [] \<and> path_exists e p)"

definition popen_args :: "env \<Rightarrow> string \<Rightarrow> popen_call" where
  "popen_args e p =
     (if platform e = ''darwin'' then OpenBundle p
      else if platform e = ''win32'' then Shell p
      else Direct p)"

text \<open>\<^verbatim>\<open>app.path\<close> where it is used as the argument of \<^verbatim>\<open>Popen\<close>.\<close>

definition path_str :: "FlightApp \<Rightarrow> string" where
  "path_str app = (case path app of None \<Rightarrow> [] | Some p \<Rightarrow> p)"

text \<open>
  The loop of \<^verbatim>\<open>_launch_selected_applications\<close> over the items of the list widget, each
  an object with the check state of its item: the objects after the loop, the
  \<^verbatim>\<open>Popen\<close> calls made, the warnings shown and \<^verbatim>\<open>launched_count\<close>.
\<close>

fun launch_items ::
  "env \<Rightarrow> (FlightApp \<times> bool) list \<Rightarrow> FlightApp list \<times> popen_call list \<times> msg list \<times> nat" where
  "launch_items e [] = ([], [], [], 0)"
| "launch_items e ((app, checked) # items) =
     (case launch_items e items of (apps, calls, warnings, launched_count) \<Rightarrow>
        (let app' = app\<lparr>default_checked := checked\<rparr> in
         if checked then
           if launchable e app' then
             if popen e (popen_args e (path_str app')) then
               (app' # apps, popen_args e (path_str app') # calls, warnings, Suc launched_count)
             else
               (app' # apps, popen_args e (path_str app') # calls,
                LaunchError (name app') # warnings, launched_count)
           else (app' # apps, calls, MissingPath (name app') # warnings, launched_count)
         else (app' # apps, calls, warnings, launched_count)))"

text \<open>
  \<^verbatim>\<open>_launch_selected_applications\<close>; \<open>check_state i\<close> is whether the item at index \<open>i\<close>
  of the list widget is checked, and the item at index \<open>i\<close> holds the object at index
  \<open>i\<close> of \<^verbatim>\<open>available_apps\<close>.
\<close>

definition widget_items :: "state \<Rightarrow> (nat \<Rightarrow> bool) \<Rightarrow> (FlightApp \<times> bool) list" where
  "widget_items s check_state =
     zip (available_apps s) (map check_state [0..<length (available_apps s)])"

definition launch_selected_applications :: "env \<Rightarrow> state \<Rightarrow> (nat \<Rightarrow> bool) \<Rightarrow> state" where
  "launch_selected_applications e s check_state =
     (case launch_items e (widget_items s check_state) of
        (apps, calls, warnings, launched_count) \<Rightarrow>
          notify
            (save_config e
               (s\<lparr>available_apps := apps,
                  messages := messages s @ warnings,
                  popen_calls := popen_calls s @ calls\<rparr>))
            (if 0 < launched_count then LaunchComplete launched_count else LaunchNothing))"

subsection \<open>Start-up and an example host\<close>

text \<open>
  The state in which \<^verbatim>\<open>MainWindow.__init__\<close> calls \<^verbatim>\<open>_load_config\<close>, for a given
  content of the file.
\<close>

definition startup :: "file_content \<Rightarrow> state" where
  "startup f = \<lparr>available_apps = initial_apps, config_file = f, messages = [], popen_calls = []\<rparr>"

text \<open>
  A Windows host for the examples: names are ASCII and lowered with \<open>lower\<close>, two
  base directories are set, the simulator's executable exists directly under the first
  and in the Steam sub-directory under the second, the registry has no key, paths are
  joined with backslashes, writing the configuration file succeeds, and every
  \<^verbatim>\<open>Popen\<close> but one succeeds.
\<close>

definition program_files :: string where
  "program_files = backslashed [''C:'', ''Program Files'']"

definition program_files_x86 :: string where
  "program_files_x86 = backslashed [''C:'', ''Program Files (x86)'']"

definition example_files :: "string list" where
  "example_files =
     [backslashed [program_files, ''Microsoft Flight Simulator'', ''FlightSimulator.exe''],
      backslashed [program_files_x86, ''Steam'', ''steamapps'', ''common'',
                   ''MicrosoftFlightSimulator'', ''FlightSimulator.exe''],
      backslashed [''D:'', ''tools'', ''charts.exe''],
      backslashed [''D:'', ''tools'', ''broken.exe'']]"

definition example_host :: env where
  "example_host =
     \<lparr>platform = ''win32'',
      str_lower = lower,
      write_outcome = Written,
      environ = (\<lambda>v. if v = ''ProgramFiles'' then Some program_files
                      else if v = ''ProgramFiles(x86)'' then Some program_files_x86
                      else None),
      path_exists = (\<lambda>p. p \<in> set example_files),
      path_join = backslashed,
      expanduser = (\<lambda>p. p),
      winreg_loaded = True,
      open_key = (\<lambda>hkey_root key. KeyMissing),
      query_value = (\<lambda>hkey_root key value_name. ValueMissing),
      mdfind = (\<lambda>ident. FileNotFoundError),
      popen = (\<lambda>call. call \<noteq> Shell (backslashed [''D:'', ''tools'', ''broken.exe'']))\<rparr>"

text \<open>A run of user actions for the examples.\<close>

definition example_actions :: "action list" where
  "example_actions =
     [Add (''FSUIPC'', True) (Some (''FSUIPC'', ''fsuipc.exe'')),
      Add (''Charts'', True) (Some (''elevatex'', ''e.exe'')),
      Edit (Some 1) (Some (''navigraph charts'', ''n.exe'')),
      Edit (Some 1) (Some (''ELEVATEX'', ''e.exe'')),
      Delete (Some 0) True]"

text \<open>A state whose file holds entries of another platform, for the examples.\<close>

definition other_platform_state :: state where
  "other_platform_state =
     \<lparr>available_apps = reset_apps,
      config_file = Doc (JObj [(''darwin'', JArr [to_dict \<lparr>name = ''Navigraph Charts'',
                                 path = Some ''/Applications/Navigraph Charts.app'',
                                 default_checked = True\<rparr>]),
                               (''win32'', JArr [])]),
      messages = [], popen_calls = []\<rparr>"

text \<open>A state with no entry and no file, for the examples.\<close>

definition empty_registry :: state where
  "empty_registry = \<lparr>available_apps = [], config_file = Absent, messages = [], popen_calls = []\<rparr>"

text \<open>The example host with a configuration file that cannot be opened for writing.\<close>

definition read_only_host :: env where
  "read_only_host = example_host\<lparr>write_outcome := OpenFailed\<rparr>"

text \<open>The same on a platform that has no discovery.\<close>

definition read_only_linux_host :: env where
  "read_only_linux_host = read_only_host\<lparr>platform := ''linux''\<rparr>"

text \<open>The example host on which the write fails after the file has been opened.\<close>

definition full_disk_host :: env where
  "full_disk_host = example_host\<lparr>write_outcome := DumpFailed\<rparr>"

text \<open>
  Items of the list widget for the examples: a checked entry that launches, one whose
  \<^verbatim>\<open>Popen\<close> raises, one without a path, an unchecked one, one whose file is gone, and
  a last one that launches.
\<close>

definition example_items :: "(FlightApp \<times> bool) list" where
  "example_items =
     [(\<lparr>name = ''Charts'', path = Some (backslashed [''D:'', ''tools'', ''charts.exe'']),
        default_checked = False\<rparr>, True),
      (\<lparr>name = ''Broken'', path = Some (backslashed [''D:'', ''tools'', ''broken.exe'']),
        default_checked = True\<rparr>, True),
      (\<lparr>name = ''Unset'', path = None, default_checked = True\<rparr>, True),
      (\<lparr>name = ''Off'', path = Some (backslashed [''D:'', ''tools'', ''charts.exe'']),
        default_checked = True\<rparr>, False),
      (\<lparr>name = ''Gone'', path = Some (backslashed [''D:'', ''tools'', ''gone.exe'']),
        default_checked = True\<rparr>, True),
      (\<lparr>name = ''Last'', path = Some (backslashed [''D:'', ''tools'', ''charts.exe'']),
        default_checked = True\<rparr>, True)]"

subsection \<open>The order of the Windows probes\<close>

text \<open>
  The paths the two nested loops of \<^verbatim>\<open>_find_app_path\<close> test, in the order in which
  they test them: per base directory, its sub-directories and then the directory named
  after the application.
\<close>

definition probe_order :: "env \<Rightarrow> string \<Rightarrow> win_info \<Rightarrow> string list" where
  "probe_order e app_name info =
     concat (map (\<lambda>base_path.
                    map (\<lambda>subdir. path_join e [base_path, subdir, exe info]) (subdirs info) @
                    [path_join e [base_path, app_name, exe info]])
               (program_files_paths e))"

text \<open>
  The order as the specification words it (steps 1 and 2 of its Windows strategy): every
  sub-directory under every base directory first, the directory named after the
  application under each base directory after all of them.  Only the examples use it,
  to compare it with the source.
\<close>

definition spec_probe_order :: "env \<Rightarrow> string \<Rightarrow> win_info \<Rightarrow> string list" where
  "spec_probe_order e app_name info =
     concat (map (\<lambda>base_path.
                    map (\<lambda>subdir. path_join e [base_path, subdir, exe info]) (subdirs info))
               (program_files_paths e)) @
     map (\<lambda>base_path. path_join e [base_path, app_name, exe info]) (program_files_paths e)"

text \<open>Discovery on Windows with the probes in the order of the specification's words.\<close>

definition spec_find_win32 :: "env \<Rightarrow> string \<Rightarrow> string option" where
  "spec_find_win32 e app_name =
     (case app_info e app_name of
        None \<Rightarrow> None
      | Some info \<Rightarrow>
          (case List.find (path_exists e) (spec_probe_order e app_name info) of
             Some found \<Rightarrow> Some found
           | None \<Rightarrow> registry_step e info))"

text \<open>The value of \<^verbatim>\<open>app_info\<close> for the simulator on the example host.\<close>

definition simulator_info :: win_info where
  "simulator_info =
     \<lparr>exe = ''FlightSimulator.exe'',
      subdirs =
        [backslashed [''Steam'', ''steamapps'', ''common'', ''MicrosoftFlightSimulator''],
         backslashed [''WpSystem'', ''Microsoft.FlightSimulator_8wekyb3d8bbwe'',
                      ''LocalCache'', ''Packages'',
                      ''Microsoft.FlightSimulator_8wekyb3d8bbwe'']],
      registry_key =
        Some (backslashed [''SOFTWARE'', ''Microsoft'', ''Windows'', ''CurrentVersion'',
                           ''Uninstall'', ''Steam App 1250410''])\<rparr>"

subsection \<open>Counting the paths a discovery pass changed\<close>

text \<open>
  The number of positions at which the entry after the pass has another path than the
  entry before it.
\<close>

definition changed_count :: "FlightApp list \<Rightarrow> FlightApp list \<Rightarrow> nat" where
  "changed_count before after =
     length (filter (\<lambda>(old, new). path new \<noteq> path old) (zip before after))"

text \<open>
  A state for the examples of discovery: the simulator without a path, an entry whose
  name is no key of the table and that has a path, and an entry that is in the table but
  not installed on the example host.
\<close>

definition discovery_state :: state where
  "discovery_state =
     \<lparr>available_apps =
        [\<lparr>name = ''Microsoft Flight Simulator'', path = None, default_checked = True\<rparr>,
         \<lparr>name = ''Elevatex'', path = Some ''e.exe'', default_checked = False\<rparr>,
         \<lparr>name = ''Navigraph Charts'', path = None, default_checked = False\<rparr>],
      config_file = Absent, messages = [], popen_calls = []\<rparr>"

section \<open>Properties\<close>

subsection \<open>Messages and saves leave the list in memory alone\<close>

lemma available_apps_notify [simp]: "available_apps (notify s m) = available_apps s"
  by (simp add: notify_def)

lemma config_file_notify [simp]: "config_file (notify s m) = config_file s"
  by (simp add: notify_def)

lemma available_apps_save_config [simp]: "available_apps (save_config e s) = available_apps s"
  by (simp add: save_config_def Let_def split: sum.splits write_result.splits)

subsection \<open>The names stay unique\<close>

lemma name_exists_iff:
  "name_exists e n apps \<longleftrightarrow> str_lower e n \<in> (\<lambda>app. str_lower e (name app)) ` set apps"
  by (force simp: name_exists_def list_ex_iff)

lemma distinct_map_others:
  assumes "i < length xs"
  shows "distinct (map f xs) \<longleftrightarrow> distinct (map f (others i xs)) \<and> f (xs ! i) \<notin> f ` set (others i xs)"
proof -
  have "distinct (map f xs) = distinct (map f (take i xs @ xs ! i # drop (Suc i) xs))"
    using id_take_nth_drop [OF assms] by simp
  then show ?thesis
    by (auto simp: others_def)
qed

lemma distinct_map_update:
  assumes "i < length xs"
  shows "distinct (map f (xs[i := y])) \<longleftrightarrow>
         distinct (map f (others i xs)) \<and> f y \<notin> f ` set (others i xs)"
proof -
  have "map f (xs[i := y]) = map f (take i xs @ y # drop (Suc i) xs)"
    using upd_conv_take_nth_drop [OF assms] by simp
  then show ?thesis
    by (auto simp: others_def)
qed

lemma unique_names_others: "unique_names e apps \<Longrightarrow> unique_names e (others i apps)"
proof (cases "i < length apps")
  case True
  assume "unique_names e apps"
  with True show ?thesis
    by (simp add: unique_names_def distinct_map_others [OF True])
next
  case False
  assume "unique_names e apps"
  with False show ?thesis
    by (simp add: others_def)
qed

lemma unique_names_append:
  assumes "unique_names e apps" and "\<not> name_exists e n apps"
  shows "unique_names e (apps @ [\<lparr>name = n, path = p, default_checked = c\<rparr>])"
  using assms by (auto simp: unique_names_def name_exists_iff)

lemma unique_names_rename:
  assumes "i < length apps" and "unique_names e apps"
    and "str_lower e n = str_lower e (name (apps ! i)) \<or> \<not> name_exists e n (others i apps)"
  shows "unique_names e (apps[i := (apps ! i)\<lparr>name := n, path := p\<rparr>])"
proof -
  let ?f = "\<lambda>app. str_lower e (name app)"
  from assms(1,2) have d: "distinct (map ?f (others i apps))"
    and old: "?f (apps ! i) \<notin> ?f ` set (others i apps)"
    by (simp_all add: unique_names_def distinct_map_others [OF assms(1)])
  from assms(3) old have "str_lower e n \<notin> ?f ` set (others i apps)"
    by (auto simp: name_exists_iff)
  with d show ?thesis
    by (simp add: unique_names_def distinct_map_update [OF assms(1)])
qed

lemma add_rejects_collision:
  assumes "name_exists e n (available_apps s)"
  shows "\<exists>m. add_custom_application e s prompt (Some (n, p)) = notify s m \<and> m \<noteq> AppAdded n"
proof (cases prompt)
  case (Pair app_name ok)
  show ?thesis
  proof (cases "str_lower e n = str_lower e app_name")
    case True
    with assms have "name_exists e app_name (available_apps s)"
      by (simp add: name_exists_iff)
    with Pair show ?thesis
      by (auto simp: add_custom_application_def)
  next
    case False
    with assms Pair show ?thesis
      by (auto simp: add_custom_application_def)
  qed
qed

text \<open>
  In particular, an add under a name that the host's \<^verbatim>\<open>str.lower\<close> maps to the same
  string as the name of an entry is refused, whatever script the names are in.
\<close>

lemma add_refuses_equal_under_lower:
  assumes "app \<in> set (available_apps s)" and "str_lower e n = str_lower e (name app)"
  shows "\<exists>m. add_custom_application e s prompt (Some (n, p)) = notify s m \<and> m \<noteq> AppAdded n"
proof -
  from assms have "name_exists e n (available_apps s)"
    by (force simp: name_exists_iff)
  then show ?thesis
    by (rule add_rejects_collision)
qed

lemma edit_rejects_collision:
  assumes "unique_names e (available_apps s)" and "i < length (available_apps s)"
    and "name_exists e n (others i (available_apps s))"
  shows "\<exists>m. edit_selected_application e s (Some i) (Some (n, p)) = notify s m \<and>
             m \<noteq> EditComplete n"
proof -
  let ?f = "\<lambda>app. str_lower e (name app)"
  from assms(1,2) have "?f (available_apps s ! i) \<notin> ?f ` set (others i (available_apps s))"
    by (simp add: unique_names_def distinct_map_others [OF assms(2)])
  with assms(3) have "str_lower e n \<noteq> str_lower e (name (available_apps s ! i))"
    by (auto simp: name_exists_iff)
  with assms(2,3) show ?thesis
    by (auto simp: edit_selected_application_def Let_def)
qed

lemma add_keeps_unique:
  assumes "unique_names e (available_apps s)"
  shows "unique_names e (available_apps (add_custom_application e s prompt details))"
proof (cases prompt)
  case (Pair app_name ok)
  show ?thesis
  proof (cases details)
    case None
    with Pair assms show ?thesis
      by (simp add: add_custom_application_def)
  next
    case (Some d)
    obtain n p where d: "d = (n, p)" by (cases d)
    show ?thesis
    proof (cases "name_exists e n (available_apps s)")
      case True
      from add_rejects_collision [OF True, where prompt = prompt and p = p] assms Some d show ?thesis
        by auto
    next
      case False
      with assms have "unique_names e (available_apps s @ [\<lparr>name = n, path = Some p, default_checked = False\<rparr>])"
        by (simp add: unique_names_append)
      with Pair Some d assms show ?thesis
        by (simp add: add_custom_application_def)
    qed
  qed
qed

lemma edit_keeps_unique:
  assumes "unique_names e (available_apps s)"
  shows "unique_names e (available_apps (edit_selected_application e s selected details))"
proof (cases selected)
  case None
  with assms show ?thesis by (simp add: edit_selected_application_def)
next
  case (Some i)
  show ?thesis
  proof (cases "i < length (available_apps s)")
    case False
    with Some assms show ?thesis by (simp add: edit_selected_application_def)
  next
    case True
    show ?thesis
    proof (cases details)
      case None
      with Some True assms show ?thesis by (simp add: edit_selected_application_def)
    next
      case d: (Some d)
      obtain n p where np: "d = (n, p)" by (cases d)
      have "\<And>q. str_lower e n = str_lower e (name (available_apps s ! i)) \<or>
              \<not> name_exists e n (others i (available_apps s)) \<Longrightarrow>
            unique_names e ((available_apps s)[i := (available_apps s ! i)\<lparr>name := n, path := q\<rparr>])"
        using unique_names_rename [OF True assms] by blast
      with Some True d np assms show ?thesis
        by (auto simp: edit_selected_application_def Let_def)
    qed
  qed
qed

lemma delete_keeps_unique:
  assumes "unique_names e (available_apps s)"
  shows "unique_names e (available_apps (delete_selected_application e s selected reply))"
  using assms
  by (auto simp: delete_selected_application_def unique_names_others split: option.splits)

lemma perform_keeps_unique:
  "unique_names e (available_apps s) \<Longrightarrow> unique_names e (available_apps (perform e s a))"
  by (cases a) (simp_all add: add_keeps_unique edit_keeps_unique delete_keeps_unique)

lemma run_keeps_unique:
  "unique_names e (available_apps s) \<Longrightarrow> unique_names e (available_apps (run e s acts))"
  unfolding run_def
  by (induction acts arbitrary: s) (simp_all add: perform_keeps_unique)

text \<open>
  C1.  On every host, whatever its \<^verbatim>\<open>str.lower\<close> does: starting from a list whose
  names are pairwise different when lowered, every run of add, edit and delete actions
  leaves such a list; and in every state reached, an add whose final name, or a rename
  whose new name, is the lowered equal of the name of an (other) entry changes nothing
  but the log of messages: the state is the old state with one message that is not the
  success message.
\<close>

theorem registry_names_stay_unique:
  assumes "unique_names e (available_apps s)"
  shows "(let t = run e s acts in
           unique_names e (available_apps t) \<and>
           (name_exists e n (available_apps t) \<longrightarrow>
              (\<exists>m. add_custom_application e t prompt (Some (n, p)) = notify t m \<and>
                   m \<noteq> AppAdded n)) \<and>
           (i < length (available_apps t) \<and> name_exists e n (others i (available_apps t)) \<longrightarrow>
              (\<exists>m. edit_selected_application e t (Some i) (Some (n, p)) = notify t m \<and>
                   m \<noteq> EditComplete n)))"
proof -
  have u: "unique_names e (available_apps (run e s acts))"
    using assms by (rule run_keeps_unique)
  show ?thesis
    unfolding Let_def
    using u add_rejects_collision edit_rejects_collision [OF u] by blast
qed

lemmas lower_eval = lower_def lower_char_def char_of_def bit_Suc_0_iff

lemma example_host_lower [simp]: "str_lower example_host = lower"
  by (simp add: example_host_def)

lemma example_run_apps:
  "available_apps (run example_host (startup Absent) example_actions) =
     [\<lparr>name = ''ELEVATEX'', path = Some ''e.exe'', default_checked = False\<rparr>,
      \<lparr>name = ''Navigraph Charts'', path = None, default_checked = False\<rparr>,
      \<lparr>name = ''FSUIPC'', path = Some ''fsuipc.exe'', default_checked = False\<rparr>]"
  by (simp add: run_def add_custom_application_def edit_selected_application_def
      delete_selected_application_def name_exists_def others_def Let_def lower_eval
      example_actions_def startup_def initial_apps_def)

lemma example_start_unique: "unique_names example_host (available_apps (startup Absent))"
  by (simp add: unique_names_def startup_def initial_apps_def lower_eval)

lemma example_run_has_fsuipc:
  "name_exists example_host ''fsuipc'' (available_apps (run example_host (startup Absent) example_actions))"
  by (simp add: example_run_apps name_exists_def lower_eval)

lemma example_run_other_fsuipc:
  "1 < length (available_apps (run example_host (startup Absent) example_actions)) \<and>
   name_exists example_host ''fsuipc''
     (others 1 (available_apps (run example_host (startup Absent) example_actions)))"
  by (simp add: example_run_apps name_exists_def others_def lower_eval)

theorem registry_names_stay_unique_witness:
  "unique_names example_host (available_apps (startup Absent)) \<and>
   unique_names example_host (available_apps (run example_host (startup Absent) example_actions)) \<and>
   name_exists example_host ''fsuipc''
     (available_apps (run example_host (startup Absent) example_actions)) \<and>
   (\<exists>m. add_custom_application example_host
          (run example_host (startup Absent) example_actions)
          (''Tool'', True) (Some (''fsuipc'', ''f.exe'')) =
        notify (run example_host (startup Absent) example_actions) m \<and>
        m \<noteq> AppAdded ''fsuipc'') \<and>
   1 < length (available_apps (run example_host (startup Absent) example_actions)) \<and>
   name_exists example_host ''fsuipc''
     (others 1 (available_apps (run example_host (startup Absent) example_actions))) \<and>
   (\<exists>m. edit_selected_application example_host
          (run example_host (startup Absent) example_actions)
          (Some 1) (Some (''fsuipc'', ''f.exe'')) =
        notify (run example_host (startup Absent) example_actions) m \<and>
        m \<noteq> EditComplete ''fsuipc'')"
proof -
  note inst =
    registry_names_stay_unique [OF example_start_unique,
      where acts = example_actions and n = "''fsuipc''"
        and prompt = "(''Tool'', True)" and p = "''f.exe''" and i = 1,
      unfolded Let_def]
  from inst example_start_unique example_run_has_fsuipc example_run_other_fsuipc
  show ?thesis by blast
qed

subsection \<open>The two lists of built-in entries\<close>

text \<open>
  C10.  The list kept when the file is absent and the list installed after a JSON parse
  error differ: their second entries are named "Elevatex" and "ElevateX".  The two
  names are equal when lowered, and only "ElevateX" is a key of the Windows table
  \<open>app_info\<close>, which is looked up with the name as it is.
\<close>

theorem seed_lists_differ:
  "map_option available_apps (load_config e (startup Absent)) = Some initial_apps \<and>
   map_option available_apps (load_config e (startup Garbled)) = Some reset_apps \<and>
   initial_apps \<noteq> reset_apps \<and>
   name (initial_apps ! 1) = ''Elevatex'' \<and>
   name (reset_apps ! 1) = ''ElevateX'' \<and>
   lower ''Elevatex'' = lower ''ElevateX'' \<and>
   app_info e ''Elevatex'' = None \<and>
   app_info e ''ElevateX'' \<noteq> None"
proof -
  have absent: "map_option available_apps (load_config e (startup Absent)) = Some initial_apps"
    by (simp add: load_config_def startup_def)
  have garbled: "map_option available_apps (load_config e (startup Garbled)) = Some reset_apps"
    by (simp add: load_config_def startup_def read_apps_def read_json_def)
  have differ: "initial_apps \<noteq> reset_apps"
    by (simp add: initial_apps_def reset_apps_def)
  have names: "name (initial_apps ! 1) = ''Elevatex'' \<and> name (reset_apps ! 1) = ''ElevateX''"
    by (simp add: initial_apps_def reset_apps_def)
  have lowered: "lower ''Elevatex'' = lower ''ElevateX''"
    by (simp add: lower_eval)
  have table: "app_info e ''Elevatex'' = None \<and> app_info e ''ElevateX'' \<noteq> None"
    by (simp add: app_info_def)
  from absent garbled differ names lowered table show ?thesis by simp
qed

subsection \<open>Saving\<close>

lemma existing_config_simps:
  "existing_config Absent = Inr (JObj [])"
  "existing_config Garbled = Inr (JObj [])"
  "existing_config Unreadable = Inl OSError"
  "existing_config Undecodable = Inl UnicodeDecodeError"
  "existing_config (Doc v) = Inr v"
  by (simp_all add: existing_config_def read_json_def)

lemma save_config_written:
  assumes "write_outcome e = Written" and "existing_config (config_file s) = Inr (JObj kvs)"
  shows "save_config e s =
         s\<lparr>config_file :=
             Doc (JObj (AList.update (platform e) (JArr (map to_dict (available_apps s))) kvs))\<rparr>"
  using assms by (simp add: save_config_def setitem_def)

lemma save_config_open_failed:
  assumes "write_outcome e = OpenFailed"
  shows "save_config e s = notify s ConfigSaveError"
  using assms
  by (simp add: save_config_def setitem_def split: sum.splits json.splits)

lemma save_config_dump_failed:
  assumes "write_outcome e = DumpFailed" and "existing_config (config_file s) = Inr (JObj kvs)"
  shows "save_config e s = notify (s\<lparr>config_file := Garbled\<rparr>) ConfigSaveError"
  using assms by (simp add: save_config_def setitem_def)

lemma save_config_read_failed:
  assumes "config_file s = Unreadable \<or> config_file s = Undecodable"
  shows "save_config e s = notify s ConfigSaveError"
  using assms by (auto simp: save_config_def existing_config_simps)

text \<open>Whether a save shows its error does not depend on the list it is to write.\<close>

lemma save_config_messages:
  "messages (save_config e s) = messages s \<or>
   messages (save_config e s) = messages s @ [ConfigSaveError]"
  by (simp add: save_config_def setitem_def notify_def
      split: sum.splits json.splits write_result.splits)

lemma save_config_messages_update:
  "messages (save_config e (s\<lparr>available_apps := apps\<rparr>)) =
   messages s @ drop (length (messages s)) (messages (save_config e s))"
  by (simp add: save_config_def setitem_def notify_def
      split: sum.splits json.splits write_result.splits)

lemma save_config_fails_alike:
  assumes "config_file s' = config_file s" and "messages (save_config e s) \<noteq> messages s"
  shows "messages (save_config e s') = messages s' @ [ConfigSaveError]"
  using assms
  by (auto simp: save_config_def setitem_def notify_def
      split: sum.splits json.splits write_result.splits)

text \<open>
  C3, as the claim states it, fails in two places.  The file is opened for writing,
  which truncates it, before the document is dumped: on the host where the dump then
  fails, a save over a file that holds entries of another platform leaves a file that is
  no JSON any more, and with it the other platform's entries are gone.  And a file whose
  bytes are no text, hence no valid JSON, is not treated as the empty document: reading it
  raises \<^verbatim>\<open>UnicodeDecodeError\<close>, which the inner \<^verbatim>\<open>except\<close> does not name, and the
  save fails.
\<close>

theorem save_config_can_lose_other_platforms:
  "config_file other_platform_state =
     Doc (JObj [(''darwin'', JArr [to_dict \<lparr>name = ''Navigraph Charts'',
                                 path = Some ''/Applications/Navigraph Charts.app'',
                                 default_checked = True\<rparr>]),
                (''win32'', JArr [])]) \<and>
   ''darwin'' \<noteq> platform full_disk_host \<and>
   save_config full_disk_host other_platform_state =
     other_platform_state\<lparr>config_file := Garbled, messages := [ConfigSaveError]\<rparr> \<and>
   save_config example_host (startup Undecodable) =
     (startup Undecodable)\<lparr>messages := [ConfigSaveError]\<rparr>"
proof -
  have w: "write_outcome full_disk_host = DumpFailed" "''darwin'' \<noteq> platform full_disk_host"
    by (simp_all add: full_disk_host_def example_host_def)
  have f: "config_file other_platform_state =
     Doc (JObj [(''darwin'', JArr [to_dict \<lparr>name = ''Navigraph Charts'',
                                 path = Some ''/Applications/Navigraph Charts.app'',
                                 default_checked = True\<rparr>]),
                (''win32'', JArr [])])"
    by (simp add: other_platform_state_def)
  then have "existing_config (config_file other_platform_state) =
     Inr (JObj [(''darwin'', JArr [to_dict \<lparr>name = ''Navigraph Charts'',
                                 path = Some ''/Applications/Navigraph Charts.app'',
                                 default_checked = True\<rparr>]),
                (''win32'', JArr [])])"
    by (simp add: existing_config_simps)
  from save_config_dump_failed [OF w(1) this]
  have lost: "save_config full_disk_host other_platform_state =
     other_platform_state\<lparr>config_file := Garbled, messages := [ConfigSaveError]\<rparr>"
    by (simp add: notify_def other_platform_state_def)
  have "config_file (startup Undecodable) = Unreadable \<or>
        config_file (startup Undecodable) = Undecodable"
    by (simp add: startup_def)
  from save_config_read_failed [OF this, of example_host]
  have refused: "save_config example_host (startup Undecodable) =
     (startup Undecodable)\<lparr>messages := [ConfigSaveError]\<rparr>"
    by (simp add: notify_def startup_def)
  from f w lost refused show ?thesis by simp
qed

text \<open>
  C3, amended.  When the file holds a JSON object and the write does not fail after the
  file has been opened, a save leaves the file a JSON object in which every key \<open>B\<close>
  other than the current platform has the value it had; when the write succeeds the new
  object is the old one with the value under the current platform replaced by the array
  of the entries, and no error is shown.  A file on which \<^verbatim>\<open>json.load\<close> raises
  \<^verbatim>\<open>JSONDecodeError\<close> is treated as the empty object: the save starts from
  \<^verbatim>\<open>{}\<close>, and when the write succeeds the save succeeds and the file holds the
  current platform's array alone.
\<close>

theorem save_config_keeps_other_platforms:
  "(config_file s = Doc (JObj kvs) \<and> B \<noteq> platform e \<and> write_outcome e \<noteq> DumpFailed \<longrightarrow>
      (\<exists>kvs'. config_file (save_config e s) = Doc (JObj kvs') \<and>
             map_of kvs' B = map_of kvs B \<and>
             (write_outcome e = Written \<longrightarrow>
                kvs' = AList.update (platform e) (JArr (map to_dict (available_apps s))) kvs \<and>
                messages (save_config e s) = messages s))) \<and>
   (config_file s = Garbled \<longrightarrow>
      existing_config (config_file s) = Inr (JObj []) \<and>
      (write_outcome e = Written \<longrightarrow>
         save_config e s =
           s\<lparr>config_file :=
               Doc (JObj [(platform e, JArr (map to_dict (available_apps s)))])\<rparr>))"
proof (intro conjI impI)
  assume a: "config_file s = Doc (JObj kvs) \<and> B \<noteq> platform e \<and> write_outcome e \<noteq> DumpFailed"
  then have ex: "existing_config (config_file s) = Inr (JObj kvs)"
    by (simp add: existing_config_simps)
  show "\<exists>kvs'. config_file (save_config e s) = Doc (JObj kvs') \<and>
             map_of kvs' B = map_of kvs B \<and>
             (write_outcome e = Written \<longrightarrow>
                kvs' = AList.update (platform e) (JArr (map to_dict (available_apps s))) kvs \<and>
                messages (save_config e s) = messages s)"
  proof (cases "write_outcome e")
    case Written
    from save_config_written [OF Written ex] a show ?thesis
      by (simp add: update_conv')
  next
    case OpenFailed
    then have "save_config e s = notify s ConfigSaveError"
      by (rule save_config_open_failed)
    with a OpenFailed show ?thesis by (simp add: notify_def)
  next
    case DumpFailed
    with a show ?thesis by simp
  qed
next
  assume "config_file s = Garbled"
  then show "existing_config (config_file s) = Inr (JObj [])"
    by (simp add: existing_config_simps)
next
  assume "config_file s = Garbled" and "write_outcome e = Written"
  then show "save_config e s =
        s\<lparr>config_file := Doc (JObj [(platform e, JArr (map to_dict (available_apps s)))])\<rparr>"
    by (simp add: save_config_written existing_config_simps)
qed

theorem save_config_keeps_other_platforms_witness:
  "config_file other_platform_state =
     Doc (JObj [(''darwin'', JArr [to_dict \<lparr>name = ''Navigraph Charts'',
                                 path = Some ''/Applications/Navigraph Charts.app'',
                                 default_checked = True\<rparr>]),
                (''win32'', JArr [])]) \<and>
   ''darwin'' \<noteq> platform example_host \<and>
   write_outcome example_host \<noteq> DumpFailed \<and>
   write_outcome example_host = Written \<and>
   config_file (save_config example_host other_platform_state) =
     Doc (JObj [(''darwin'', JArr [to_dict \<lparr>name = ''Navigraph Charts'',
                                 path = Some ''/Applications/Navigraph Charts.app'',
                                 default_checked = True\<rparr>]),
                (''win32'', JArr (map to_dict reset_apps))]) \<and>
   config_file (startup Garbled) = Garbled \<and>
   existing_config (config_file (startup Garbled)) = Inr (JObj []) \<and>
   save_config example_host (startup Garbled) =
     (startup Garbled)\<lparr>config_file := Doc (JObj [(''win32'', JArr (map to_dict initial_apps))])\<rparr>"
proof -
  have f: "config_file other_platform_state =
     Doc (JObj [(''darwin'', JArr [to_dict \<lparr>name = ''Navigraph Charts'',
                                 path = Some ''/Applications/Navigraph Charts.app'',
                                 default_checked = True\<rparr>]),
                (''win32'', JArr [])])"
    by (simp add: other_platform_state_def)
  have p: "''darwin'' \<noteq> platform example_host" "write_outcome example_host = Written"
    "write_outcome example_host \<noteq> DumpFailed" "platform example_host = ''win32''"
    by (simp_all add: example_host_def)
  have g: "config_file (startup Garbled) = Garbled"
    "available_apps (startup Garbled) = initial_apps"
    "available_apps other_platform_state = reset_apps"
    by (simp_all add: startup_def other_platform_state_def)
  note inst1 = save_config_keeps_other_platforms [of other_platform_state _ "''darwin''" example_host, THEN conjunct1]
  note inst2 = save_config_keeps_other_platforms [of "startup Garbled" "[]" "''darwin''" example_host, THEN conjunct2]
  from inst1 f p have "\<exists>kvs'. config_file (save_config example_host other_platform_state) = Doc (JObj kvs') \<and>
     kvs' = AList.update ''win32'' (JArr (map to_dict reset_apps))
       [(''darwin'', JArr [to_dict \<lparr>name = ''Navigraph Charts'',
                                 path = Some ''/Applications/Navigraph Charts.app'',
                                 default_checked = True\<rparr>]),
                (''win32'', JArr [])]"
    by (simp add: g)
  then have one: "config_file (save_config example_host other_platform_state) =
     Doc (JObj [(''darwin'', JArr [to_dict \<lparr>name = ''Navigraph Charts'',
                                 path = Some ''/Applications/Navigraph Charts.app'',
                                 default_checked = True\<rparr>]),
                (''win32'', JArr (map to_dict reset_apps))])"
    by simp
  from inst2 g p have two: "existing_config (config_file (startup Garbled)) = Inr (JObj [])"
    "save_config example_host (startup Garbled) =
     (startup Garbled)\<lparr>config_file := Doc (JObj [(''win32'', JArr (map to_dict initial_apps))])\<rparr>"
    by simp_all
  from f p g one two show ?thesis by simp
qed

subsection \<open>Saving and loading again\<close>

lemma from_dict_to_dict: "from_dict (to_dict app) = Inr (Some app)"
  by (cases "path app") (simp_all add: from_dict_def to_dict_def dict_get_def path_json_def)

lemma from_dicts_to_dict: "from_dicts (map to_dict apps) = Inr (Some apps)"
  by (induction apps) (simp_all add: from_dict_to_dict)

lemma save_config_cases:
  "messages (save_config e s) = messages s @ [ConfigSaveError] \<or>
   (\<exists>kvs. save_config e s =
      s\<lparr>config_file :=
          Doc (JObj (AList.update (platform e) (JArr (map to_dict (available_apps s))) kvs))\<rparr>)"
  by (auto simp: save_config_def setitem_def notify_def
      split: sum.splits json.splits write_result.splits)

lemma save_config_quiet:
  assumes "messages (save_config e s) = messages s"
  shows "\<exists>kvs. config_file (save_config e s) = Doc (JObj kvs) \<and>
           map_of kvs (platform e) = Some (JArr (map to_dict (available_apps s)))"
proof -
  from save_config_cases [of e s] show ?thesis
  proof
    assume "messages (save_config e s) = messages s @ [ConfigSaveError]"
    with assms show ?thesis by simp
  next
    assume "\<exists>kvs. save_config e s =
      s\<lparr>config_file :=
          Doc (JObj (AList.update (platform e) (JArr (map to_dict (available_apps s))) kvs))\<rparr>"
    then obtain kvs where "save_config e s =
      s\<lparr>config_file :=
          Doc (JObj (AList.update (platform e) (JArr (map to_dict (available_apps s))) kvs))\<rparr>"
      by blast
    then show ?thesis by (simp add: update_conv')
  qed
qed

lemma load_config_entries:
  assumes "config_file t = Doc (JObj kvs)"
    and "map_of kvs (platform e) = Some (JArr (map to_dict apps))" and "apps \<noteq> []"
  shows "load_config e t = Some (t\<lparr>available_apps := apps\<rparr>)"
  using assms
  by (simp add: load_config_def read_apps_def read_json_def dict_get_def load_apps_def
      from_dicts_to_dict)

lemma startup_simps:
  "available_apps (startup f) = initial_apps"
  "config_file (startup f) = f"
  "messages (startup f) = []"
  "popen_calls (startup f) = []"
  by (simp_all add: startup_def)

lemma example_host_simps:
  "platform example_host = ''win32''"
  "write_outcome example_host = Written"
  "path_join example_host = backslashed"
  by (simp_all add: example_host_def)

text \<open>
  C4, as the claim states it, fails for the empty list: after every entry is deleted the
  save writes an empty array, and at the next start \<^verbatim>\<open>_load_config\<close> finds
  \<^verbatim>\<open>apps_data\<close> falsy and keeps the three entries of \<^verbatim>\<open>__init__\<close>.
\<close>

theorem save_then_load_empty_list:
  "available_apps empty_registry = [] \<and>
   messages (save_config example_host empty_registry) = messages empty_registry \<and>
   map_option available_apps
     (load_config example_host
        ((startup Absent)\<lparr>config_file := config_file (save_config example_host empty_registry)\<rparr>)) =
   Some initial_apps \<and>
   initial_apps \<noteq> available_apps empty_registry"
proof -
  have s: "save_config example_host empty_registry =
           empty_registry\<lparr>config_file := Doc (JObj [(''win32'', JArr [])])\<rparr>"
    by (simp add: save_config_written [where kvs = "[]"] example_host_simps existing_config_simps
        empty_registry_def)
  have l: "map_option available_apps
     (load_config example_host ((startup Absent)\<lparr>config_file := Doc (JObj [(''win32'', JArr [])])\<rparr>)) =
   Some initial_apps"
    by (simp add: load_config_def read_apps_def read_json_def dict_get_def example_host_simps
        startup_simps)
  from s l show ?thesis
    by (simp add: empty_registry_def initial_apps_def)
qed

text \<open>
  C4, amended.  For every non-empty list of entries: when the save shows no error, a load
  of the file it wrote, from any state in memory and for the same platform, installs
  exactly that list: the same entries in the same order, each with its name, path and
  checked flag.
\<close>

theorem save_then_load_roundtrip:
  assumes "available_apps s \<noteq> []" and "messages (save_config e s) = messages s"
  shows "load_config e (t\<lparr>config_file := config_file (save_config e s)\<rparr>) =
         Some (t\<lparr>config_file := config_file (save_config e s),
                 available_apps := available_apps s\<rparr>)"
proof -
  from save_config_quiet [OF assms(2)] obtain kvs where
    f: "config_file (save_config e s) = Doc (JObj kvs)" and
    k: "map_of kvs (platform e) = Some (JArr (map to_dict (available_apps s)))"
    by blast
  have "config_file (t\<lparr>config_file := config_file (save_config e s)\<rparr>) = Doc (JObj kvs)"
    using f by simp
  from load_config_entries [OF this k assms(1)] show ?thesis by simp
qed

theorem save_then_load_roundtrip_witness:
  "available_apps (other_platform_state) \<noteq> [] \<and>
   messages (save_config example_host other_platform_state) = messages other_platform_state \<and>
   load_config example_host
     ((startup Absent)\<lparr>config_file := config_file (save_config example_host other_platform_state)\<rparr>) =
   Some ((startup Absent)\<lparr>config_file := config_file (save_config example_host other_platform_state),
           available_apps := reset_apps\<rparr>)"
proof -
  have a: "available_apps other_platform_state \<noteq> []"
    "available_apps other_platform_state = reset_apps"
    by (simp_all add: other_platform_state_def reset_apps_def)
  have m: "messages (save_config example_host other_platform_state) = messages other_platform_state"
    by (simp add: save_config_written [where kvs = "[(''darwin'', JArr [to_dict \<lparr>name = ''Navigraph Charts'',
                                 path = Some ''/Applications/Navigraph Charts.app'',
                                 default_checked = True\<rparr>]),
                               (''win32'', JArr [])]"] example_host_simps existing_config_simps other_platform_state_def)
  from save_then_load_roundtrip [OF a(1) m, of "startup Absent"] a m show ?thesis by simp
qed

subsection \<open>Names of the examples\<close>

lemma initial_names:
  assumes "str_lower e = lower"
  shows "\<not> name_exists e ''FSUIPC'' initial_apps"
    and "\<not> name_exists e ''Tool'' initial_apps"
    and "str_lower e ''ElevateX'' = str_lower e (name (initial_apps ! 1))"
    and "length initial_apps = 3"
  by (simp_all add: assms name_exists_def initial_apps_def lower_eval)

lemma read_only_host_simps:
  "write_outcome read_only_host = OpenFailed"
  "str_lower read_only_host = lower"
  by (simp_all add: read_only_host_def example_host_def)

subsection \<open>Loading\<close>

text \<open>
  What \<^verbatim>\<open>_load_config\<close> does in each case in which it does not raise: a
  non-empty array of entries under the current platform replaces the list; an absent
  file, or a falsy value under the current platform, keeps the list and saves it; a file
  that is not valid JSON resets the list, warns, and saves, which writes the reset list.
\<close>

lemma load_config_replaces:
  assumes "config_file s = Doc (JObj kvs)" and "dict_get kvs (platform e) (JArr []) = JArr ds"
    and "ds \<noteq> []" and "from_dicts ds = Inr (Some apps)"
  shows "load_config e s = Some (s\<lparr>available_apps := apps\<rparr>)"
  using assms by (simp add: load_config_def read_apps_def read_json_def load_apps_def)

lemma load_config_keeps:
  assumes "config_file s = Absent \<or>
           (\<exists>kvs. config_file s = Doc (JObj kvs) \<and> \<not> truthy (dict_get kvs (platform e) (JArr [])))"
  shows "load_config e s = Some (save_config e s)"
  using assms by (auto simp: load_config_def read_apps_def read_json_def)

lemma load_config_heals_garbled:
  assumes "config_file s = Garbled" and "write_outcome e = Written"
  shows "load_config e s =
         Some (s\<lparr>available_apps := reset_apps,
                 messages := messages s @ [ConfigError],
                 config_file := Doc (JObj [(platform e, JArr (map to_dict reset_apps))])\<rparr>)"
  using assms
  by (simp add: load_config_def read_apps_def read_json_def save_config_def existing_config_def
      setitem_def notify_def)

text \<open>
  C2.  The claim fails where the load raises anything but \<^verbatim>\<open>JSONDecodeError\<close> and the
  file cannot be read as a dict afterwards: for a file that holds the JSON array
  \<^verbatim>\<open>[]\<close>, and for a file that cannot be read, \<^verbatim>\<open>_load_config\<close> resets the list
  and warns, but the save it calls fails in its turn (a list takes no string key; the
  read fails again), shows "Config Save Error" and leaves the file as it was.
\<close>

theorem load_config_cannot_heal:
  "load_config e (startup (Doc (JArr []))) =
     Some ((startup (Doc (JArr [])))
             \<lparr>available_apps := reset_apps,
              messages := [ConfigErrorUnexpected, ConfigSaveError]\<rparr>) \<and>
   load_config e (startup Unreadable) =
     Some ((startup Unreadable)
             \<lparr>available_apps := reset_apps,
              messages := [ConfigErrorUnexpected, ConfigSaveError]\<rparr>)"
  by (simp add: load_config_def read_apps_def read_json_def save_config_def existing_config_def
      setitem_def notify_def startup_def)

subsection \<open>Adding an entry\<close>

lemma initial_names_more:
  "name_exists example_host ''elevatex'' initial_apps"
  "\<not> name_exists example_host ''Charts'' initial_apps"
  "\<not> name_exists example_host '' '' initial_apps"
  "\<not> name_exists example_host [] initial_apps"
  by (simp_all add: name_exists_def initial_apps_def lower_eval)

text \<open>
  C6, as the claim states it, fails: nothing is trimmed.  A name of one space and a path
  of three spaces, both empty after \<^verbatim>\<open>strip()\<close>, are accepted, and the entry is
  appended and saved.
\<close>

theorem add_accepts_blank_name_and_path:
  "strip '' '' = [] \<and> strip ''   '' = [] \<and>
   add_custom_application example_host (startup Absent) ('' '', True) (Some ('' '', ''   '')) =
     (startup Absent)
       \<lparr>available_apps :=
          initial_apps @ [\<lparr>name = '' '', path = Some ''   '', default_checked = False\<rparr>],
        config_file :=
          Doc (JObj [(''win32'',
                 JArr (map to_dict
                   (initial_apps @
                    [\<lparr>name = '' '', path = Some ''   '', default_checked = False\<rparr>])))]),
        messages := [AppAdded '' '']\<rparr>"
proof -
  have t: "strip '' '' = []" "strip ''   '' = []"
    by (simp_all add: strip_def isspace_def)
  note n = initial_names_more(3)
  have "add_custom_application example_host (startup Absent) ('' '', True) (Some ('' '', ''   '')) =
     (startup Absent)
       \<lparr>available_apps :=
          initial_apps @ [\<lparr>name = '' '', path = Some ''   '', default_checked = False\<rparr>],
        config_file :=
          Doc (JObj [(''win32'',
                 JArr (map to_dict
                   (initial_apps @
                    [\<lparr>name = '' '', path = Some ''   '', default_checked = False\<rparr>])))]),
        messages := [AppAdded '' '']\<rparr>"
    by (simp add: add_custom_application_def n startup_simps
        save_config_written [where kvs = "[]"] existing_config_simps example_host_simps notify_def)
  with t show ?thesis by simp
qed

text \<open>
  C6, amended.  An add whose prompt returns the empty name shows "Application name
  cannot be empty." and an add whose details dialog returns the empty path shows
  "Application path cannot be empty.", both without trimming and with the state
  otherwise unchanged; an add whose final name is the lowered equal of an entry's name
  changes nothing but the messages, whatever the prompt returned; and an add that passes
  the checks with a non-empty final name appends an entry with that name, the path and
  \<^verbatim>\<open>default_checked = False\<close>, saves, and shows "App Added".
\<close>

theorem add_custom_application_outcomes:
  "add_custom_application e s ([], True) details = notify s EmptyName \<and>
   (a \<noteq> [] \<and> \<not> name_exists e a (available_apps s) \<longrightarrow>
      add_custom_application e s (a, True) (Some (n, [])) = notify s EmptyPath) \<and>
   (name_exists e n (available_apps s) \<longrightarrow>
      (\<exists>m. add_custom_application e s prompt (Some (n, p)) = notify s m \<and> m \<noteq> AppAdded n)) \<and>
   (a \<noteq> [] \<and> \<not> name_exists e a (available_apps s) \<and>
    n \<noteq> [] \<and> p \<noteq> [] \<and> \<not> name_exists e n (available_apps s) \<longrightarrow>
      add_custom_application e s (a, True) (Some (n, p)) =
        notify
          (save_config e
             (s\<lparr>available_apps :=
                  available_apps s @ [\<lparr>name = n, path = Some p, default_checked = False\<rparr>]\<rparr>))
          (AppAdded n))"
proof (intro conjI impI)
  show "add_custom_application e s ([], True) details = notify s EmptyName"
    by (simp add: add_custom_application_def)
next
  assume "a \<noteq> [] \<and> \<not> name_exists e a (available_apps s)"
  then show "add_custom_application e s (a, True) (Some (n, [])) = notify s EmptyPath"
    by (simp add: add_custom_application_def)
next
  assume "name_exists e n (available_apps s)"
  then show "\<exists>m. add_custom_application e s prompt (Some (n, p)) = notify s m \<and> m \<noteq> AppAdded n"
    by (rule add_rejects_collision)
next
  assume "a \<noteq> [] \<and> \<not> name_exists e a (available_apps s) \<and>
    n \<noteq> [] \<and> p \<noteq> [] \<and> \<not> name_exists e n (available_apps s)"
  then show "add_custom_application e s (a, True) (Some (n, p)) =
        notify
          (save_config e
             (s\<lparr>available_apps :=
                  available_apps s @ [\<lparr>name = n, path = Some p, default_checked = False\<rparr>]\<rparr>))
          (AppAdded n)"
    by (simp add: add_custom_application_def)
qed

theorem add_custom_application_outcomes_witness:
  "add_custom_application example_host (startup Absent) ([], True) None =
     notify (startup Absent) EmptyName \<and>
   ''Tool'' \<noteq> [] \<and> \<not> name_exists example_host ''Tool'' (available_apps (startup Absent)) \<and>
   add_custom_application example_host (startup Absent) (''Tool'', True) (Some (''FSUIPC'', [])) =
     notify (startup Absent) EmptyPath \<and>
   name_exists example_host ''elevatex'' (available_apps (startup Absent)) \<and>
   (\<exists>m. add_custom_application example_host (startup Absent) (''Charts'', True)
          (Some (''elevatex'', ''f.exe'')) = notify (startup Absent) m \<and>
        m \<noteq> AppAdded ''elevatex'') \<and>
   ''FSUIPC'' \<noteq> [] \<and> ''f.exe'' \<noteq> [] \<and>
   \<not> name_exists example_host ''FSUIPC'' (available_apps (startup Absent)) \<and>
   add_custom_application example_host (startup Absent) (''Tool'', True)
     (Some (''FSUIPC'', ''f.exe'')) =
     notify
       (save_config example_host
          ((startup Absent)\<lparr>available_apps :=
             available_apps (startup Absent) @
             [\<lparr>name = ''FSUIPC'', path = Some ''f.exe'', default_checked = False\<rparr>]\<rparr>))
       (AppAdded ''FSUIPC'')"
proof -
  note i1 = add_custom_application_outcomes [where e = example_host and s = "startup Absent"
      and details = None and a = "''Tool''" and n = "''FSUIPC''" and p = "''f.exe''"
      and prompt = "(''Charts'', True)"]
  note i2 = add_custom_application_outcomes [where e = example_host and s = "startup Absent"
      and details = None and a = "''Tool''" and n = "''elevatex''" and p = "''f.exe''"
      and prompt = "(''Charts'', True)"]
  from i1 i2 initial_names [OF example_host_lower] initial_names_more show ?thesis
    by (simp add: startup_simps)
qed

text \<open>
  The one check the source leaves out: the name returned by the details dialog is not
  tested for emptiness (\<^verbatim>\<open>_edit_selected_application\<close> tests it), so clearing the
  name in the dialog appends an entry with the empty name.
\<close>

lemma add_accepts_empty_final_name:
  "add_custom_application example_host (startup Absent) (''Tool'', True) (Some ([], ''f.exe'')) =
     notify
       (save_config example_host
          ((startup Absent)\<lparr>available_apps :=
             initial_apps @ [\<lparr>name = [], path = Some ''f.exe'', default_checked = False\<rparr>]\<rparr>))
       (AppAdded [])"
proof -
  from initial_names_more(4) initial_names [OF example_host_lower] show ?thesis
    by (simp add: add_custom_application_def startup_simps lower_eval)
qed

subsection \<open>Launching\<close>

lemma launchable_default_checked [simp]:
  "launchable e (app\<lparr>default_checked := c\<rparr>) = launchable e app"
  by (simp add: launchable_def)

lemma path_str_default_checked [simp]:
  "path_str (app\<lparr>default_checked := c\<rparr>) = path_str app"
  by (simp add: path_str_def)

lemma launch_items_result:
  "launch_items e items =
     (map (\<lambda>(app, checked). app\<lparr>default_checked := checked\<rparr>) items,
      map (\<lambda>(app, checked). popen_args e (path_str app))
        (filter (\<lambda>(app, checked). checked \<and> launchable e app) items),
      concat (map (\<lambda>(app, checked).
                if checked \<and> \<not> launchable e app then [MissingPath (name app)]
                else if checked \<and> \<not> popen e (popen_args e (path_str app))
                then [LaunchError (name app)]
                else []) items),
      length (filter (\<lambda>(app, checked).
                checked \<and> launchable e app \<and> popen e (popen_args e (path_str app))) items))"
proof (induction items)
  case Nil
  show ?case by simp
next
  case (Cons item items)
  obtain app checked where item: "item = (app, checked)" by (cases item)
  show ?case
    unfolding item
    by (simp add: Cons.IH Let_def)
qed

lemma last_messages_notify: "last (messages (notify s m)) = m"
  by (simp add: notify_def)

lemma popen_calls_notify [simp]: "popen_calls (notify s m) = popen_calls s"
  by (simp add: notify_def)

lemma popen_calls_save_config [simp]: "popen_calls (save_config e s) = popen_calls s"
  by (simp add: save_config_def Let_def split: sum.splits write_result.splits)

text \<open>
  C5.  The launch loop visits every item, whatever happened at the items before it:
  the \<^verbatim>\<open>Popen\<close> calls are exactly those for the checked items whose path is set and
  exists, in order; an unchecked item is never spawned and never counted; a checked item
  whose path is unset, empty or not on disk gives the warning "Missing Path" and no
  \<^verbatim>\<open>Popen\<close> call; a \<^verbatim>\<open>Popen\<close> that raises gives the warning "Launch Error"; the
  count is the number of checked items whose \<^verbatim>\<open>Popen\<close> returned.  The whole operation
  appends these calls to the calls made so far and ends with the message that carries
  the count.
\<close>

theorem launch_sweep:
  "launch_items e items =
     (map (\<lambda>(app, checked). app\<lparr>default_checked := checked\<rparr>) items,
      map (\<lambda>(app, checked). popen_args e (path_str app))
        (filter (\<lambda>(app, checked). checked \<and> launchable e app) items),
      concat (map (\<lambda>(app, checked).
                if checked \<and> \<not> launchable e app then [MissingPath (name app)]
                else if checked \<and> \<not> popen e (popen_args e (path_str app))
                then [LaunchError (name app)]
                else []) items),
      length (filter (\<lambda>(app, checked).
                checked \<and> launchable e app \<and> popen e (popen_args e (path_str app))) items)) \<and>
   popen_calls (launch_selected_applications e s check_state) =
     popen_calls s @
     map (\<lambda>(app, checked). popen_args e (path_str app))
       (filter (\<lambda>(app, checked). checked \<and> launchable e app) (widget_items s check_state)) \<and>
   last (messages (launch_selected_applications e s check_state)) =
     (if 0 < length (filter (\<lambda>(app, checked).
                checked \<and> launchable e app \<and> popen e (popen_args e (path_str app)))
                (widget_items s check_state))
      then LaunchComplete (length (filter (\<lambda>(app, checked).
                checked \<and> launchable e app \<and> popen e (popen_args e (path_str app)))
                (widget_items s check_state)))
      else LaunchNothing)"
  by (simp add: launch_items_result launch_selected_applications_def last_messages_notify)

lemma example_launchable:
  "launchable example_host \<lparr>name = n, path = Some (backslashed [''D:'', ''tools'', ''charts.exe'']), default_checked = c\<rparr>"
  "launchable example_host \<lparr>name = n, path = Some (backslashed [''D:'', ''tools'', ''broken.exe'']), default_checked = c\<rparr>"
  "\<not> launchable example_host \<lparr>name = n, path = Some (backslashed [''D:'', ''tools'', ''gone.exe'']), default_checked = c\<rparr>"
  "\<not> launchable example_host \<lparr>name = n, path = None, default_checked = c\<rparr>"
  by (simp_all add: launchable_def example_host_def example_files_def backslashed_def
      program_files_def program_files_x86_def)

lemma example_popen:
  "popen example_host (Shell (backslashed [''D:'', ''tools'', ''charts.exe'']))"
  "\<not> popen example_host (Shell (backslashed [''D:'', ''tools'', ''broken.exe'']))"
  "popen_args example_host p = Shell p"
  by (simp_all add: example_host_def popen_args_def backslashed_def)

theorem launch_sweep_witness:
  "launch_items example_host example_items =
     (map (\<lambda>(app, checked). app\<lparr>default_checked := checked\<rparr>) example_items,
      [Shell (backslashed [''D:'', ''tools'', ''charts.exe'']),
       Shell (backslashed [''D:'', ''tools'', ''broken.exe'']),
       Shell (backslashed [''D:'', ''tools'', ''charts.exe''])],
      [LaunchError ''Broken'', MissingPath ''Unset'', MissingPath ''Gone''],
      2)"
  using launch_sweep [of example_host example_items]
  by (simp add: example_items_def example_launchable example_popen path_str_def)

subsection \<open>Discovery on Windows\<close>

lemma find_append:
  "List.find P (xs @ ys) = (case List.find P xs of Some x \<Rightarrow> Some x | None \<Rightarrow> List.find P ys)"
  by (induction xs) simp_all

lemma probe_subdirs_find:
  "probe_subdirs e base_path exe_name sds =
     List.find (path_exists e) (map (\<lambda>subdir. path_join e [base_path, subdir, exe_name]) sds)"
  by (induction sds) (simp_all add: Let_def)

lemma probe_bases_find:
  "probe_bases e app_name exe_name sds bases =
     List.find (path_exists e)
       (concat (map (\<lambda>base_path.
                       map (\<lambda>subdir. path_join e [base_path, subdir, exe_name]) sds @
                       [path_join e [base_path, app_name, exe_name]])
                  bases))"
  by (induction bases)
    (simp_all add: probe_subdirs_find find_append Let_def split: option.splits)

lemma example_simulator_info:
  "app_info example_host ''Microsoft Flight Simulator'' = Some simulator_info"
  by (simp add: app_info_def simulator_info_def example_host_simps)

lemma example_bases: "program_files_paths example_host = [program_files, program_files_x86]"
  by (simp add: program_files_paths_def example_host_def program_files_def
      program_files_x86_def backslashed_def)

lemma example_probe_order:
  "probe_order example_host ''Microsoft Flight Simulator'' simulator_info =
     [backslashed [program_files, ''Steam'', ''steamapps'', ''common'',
                   ''MicrosoftFlightSimulator'', ''FlightSimulator.exe''],
      backslashed [program_files, ''WpSystem'', ''Microsoft.FlightSimulator_8wekyb3d8bbwe'',
                      ''LocalCache'', ''Packages'',
                      ''Microsoft.FlightSimulator_8wekyb3d8bbwe'', ''FlightSimulator.exe''],
      backslashed [program_files, ''Microsoft Flight Simulator'', ''FlightSimulator.exe''],
      backslashed [program_files_x86, ''Steam'', ''steamapps'', ''common'',
                   ''MicrosoftFlightSimulator'', ''FlightSimulator.exe''],
      backslashed [program_files_x86, ''WpSystem'', ''Microsoft.FlightSimulator_8wekyb3d8bbwe'',
                      ''LocalCache'', ''Packages'',
                      ''Microsoft.FlightSimulator_8wekyb3d8bbwe'', ''FlightSimulator.exe''],
      backslashed [program_files_x86, ''Microsoft Flight Simulator'', ''FlightSimulator.exe'']]"
  by (simp add: probe_order_def example_bases simulator_info_def example_host_simps
      backslashed_def program_files_def program_files_x86_def)

lemma example_exists:
  "\<not> path_exists example_host (backslashed [program_files, ''Steam'', ''steamapps'', ''common'',
                   ''MicrosoftFlightSimulator'', ''FlightSimulator.exe''])"
  "\<not> path_exists example_host (backslashed [program_files, ''WpSystem'', ''Microsoft.FlightSimulator_8wekyb3d8bbwe'',
                      ''LocalCache'', ''Packages'',
                      ''Microsoft.FlightSimulator_8wekyb3d8bbwe'', ''FlightSimulator.exe''])"
  "path_exists example_host (backslashed [program_files, ''Microsoft Flight Simulator'', ''FlightSimulator.exe''])"
  "path_exists example_host (backslashed [program_files_x86, ''Steam'', ''steamapps'', ''common'',
                   ''MicrosoftFlightSimulator'', ''FlightSimulator.exe''])"
  "\<not> path_exists example_host (backslashed [program_files_x86, ''WpSystem'', ''Microsoft.FlightSimulator_8wekyb3d8bbwe'',
                      ''LocalCache'', ''Packages'',
                      ''Microsoft.FlightSimulator_8wekyb3d8bbwe'', ''FlightSimulator.exe''])"
  by (simp_all add: example_host_def example_files_def backslashed_def program_files_def
      program_files_x86_def)

lemma example_spec_probe_order:
  "spec_probe_order example_host ''Microsoft Flight Simulator'' simulator_info =
     [backslashed [program_files, ''Steam'', ''steamapps'', ''common'',
                   ''MicrosoftFlightSimulator'', ''FlightSimulator.exe''],
      backslashed [program_files, ''WpSystem'', ''Microsoft.FlightSimulator_8wekyb3d8bbwe'',
                      ''LocalCache'', ''Packages'',
                      ''Microsoft.FlightSimulator_8wekyb3d8bbwe'', ''FlightSimulator.exe''],
      backslashed [program_files_x86, ''Steam'', ''steamapps'', ''common'',
                   ''MicrosoftFlightSimulator'', ''FlightSimulator.exe''],
      backslashed [program_files_x86, ''WpSystem'', ''Microsoft.FlightSimulator_8wekyb3d8bbwe'',
                      ''LocalCache'', ''Packages'',
                      ''Microsoft.FlightSimulator_8wekyb3d8bbwe'', ''FlightSimulator.exe''],
      backslashed [program_files, ''Microsoft Flight Simulator'', ''FlightSimulator.exe''],
      backslashed [program_files_x86, ''Microsoft Flight Simulator'', ''FlightSimulator.exe'']]"
  by (simp add: spec_probe_order_def example_bases simulator_info_def example_host_simps
      backslashed_def program_files_def program_files_x86_def)

lemma example_paths_differ:
  "backslashed [program_files, ''Microsoft Flight Simulator'', ''FlightSimulator.exe''] \<noteq>
   backslashed [program_files_x86, ''Steam'', ''steamapps'', ''common'',
                ''MicrosoftFlightSimulator'', ''FlightSimulator.exe'']"
  by (simp add: backslashed_def program_files_def program_files_x86_def)

text \<open>
  C7, as the claim states it, fails: on the example host the simulator's executable is
  directly under the first base directory and in the Steam sub-directory under the
  second one.  The source returns the first, which it tests before it turns to the second
  base directory; in the order of the claim the second would be returned.
\<close>

theorem windows_probe_order_not_as_stated:
  "find_app_path example_host ''Microsoft Flight Simulator'' =
     Inr (Some (backslashed [program_files, ''Microsoft Flight Simulator'',
                             ''FlightSimulator.exe''])) \<and>
   spec_find_win32 example_host ''Microsoft Flight Simulator'' =
     Some (backslashed [program_files_x86, ''Steam'', ''steamapps'', ''common'',
                        ''MicrosoftFlightSimulator'', ''FlightSimulator.exe'']) \<and>
   find_app_path example_host ''Microsoft Flight Simulator'' \<noteq>
     Inr (spec_find_win32 example_host ''Microsoft Flight Simulator'')"
proof -
  have code: "find_win32 example_host ''Microsoft Flight Simulator'' =
     Some (backslashed [program_files, ''Microsoft Flight Simulator'', ''FlightSimulator.exe''])"
    by (simp add: find_win32_def probe_bases_find example_simulator_info
        example_probe_order [unfolded probe_order_def] example_exists)
  have spec: "spec_find_win32 example_host ''Microsoft Flight Simulator'' =
     Some (backslashed [program_files_x86, ''Steam'', ''steamapps'', ''common'',
                        ''MicrosoftFlightSimulator'', ''FlightSimulator.exe''])"
    by (simp add: spec_find_win32_def example_simulator_info example_spec_probe_order
        example_exists)
  from code spec example_paths_differ show ?thesis
    by (simp add: find_app_path_def example_host_simps)
qed

text \<open>
  C7, amended.  For a name with an entry in the table, discovery on Windows returns the
  first existing path of \<open>probe_order\<close>: for each base directory that is set and not
  empty, in the order ProgramFiles, ProgramFiles(x86), LocalAppData, the path under each
  candidate sub-directory and then the path under the directory named after the
  application, before the next base directory.  The registry is consulted only when none
  of these paths exists.
\<close>

theorem windows_probe_order:
  assumes "app_info e app_name = Some info"
  shows "find_win32 e app_name =
         (case List.find (path_exists e) (probe_order e app_name info) of
            Some found \<Rightarrow> Some found
          | None \<Rightarrow> registry_step e info)"
  using assms by (simp add: find_win32_def probe_bases_find probe_order_def)

theorem windows_probe_order_witness:
  "app_info example_host ''Microsoft Flight Simulator'' = Some simulator_info \<and>
   find_win32 example_host ''Microsoft Flight Simulator'' =
     Some (backslashed [program_files, ''Microsoft Flight Simulator'', ''FlightSimulator.exe''])"
  using windows_probe_order [OF example_simulator_info]
  by (simp add: example_simulator_info example_probe_order example_exists)

subsection \<open>The discovery pass\<close>

lemma find_app_path_no_descriptor:
  assumes "(platform e = ''win32'' \<and> app_info e n = None) \<or>
           (platform e = ''darwin'' \<and> macos_app_info n = None) \<or>
           (platform e \<noteq> ''win32'' \<and> platform e \<noteq> ''darwin'')"
  shows "find_app_path e n = Inr None"
  using assms by (auto simp: find_app_path_def find_win32_def find_darwin_def)

lemma discover_one_eq:
  "discover_one app_obj new_path =
     (if path_set new_path \<and> new_path \<noteq> path app_obj
      then (app_obj\<lparr>path := new_path\<rparr>, 1) else (app_obj, 0))"
  by (auto simp: discover_one_def Let_def)

lemma discover_one_none: "discover_one app_obj None = (app_obj, 0)"
  by (simp add: discover_one_eq path_set_def)

lemma discover_apps_Cons:
  "discover_apps e (app_obj # rest) =
     (case find_app_path e (name app_obj) of
        Inl err \<Rightarrow> (app_obj # rest, Inl err)
      | Inr new_path \<Rightarrow>
          (fst (discover_one app_obj new_path) # fst (discover_apps e rest),
           case snd (discover_apps e rest) of
             Inl err \<Rightarrow> Inl err
           | Inr found_count \<Rightarrow> Inr (snd (discover_one app_obj new_path) + found_count)))"
  by (cases "discover_apps e rest"; cases "snd (discover_apps e rest)")
    (simp_all split: sum.split prod.split)

lemma length_discover_apps: "length (fst (discover_apps e apps)) = length apps"
proof (induction apps)
  case Nil
  show ?case by simp
next
  case (Cons app_obj rest)
  then show ?case
    by (cases "find_app_path e (name app_obj)") (simp_all add: discover_apps_Cons del: discover_apps.simps)
qed

lemma discover_apps_untouched:
  assumes "i < length apps" and "find_app_path e (name (apps ! i)) = Inr None"
  shows "fst (discover_apps e apps) ! i = apps ! i"
  using assms
proof (induction apps arbitrary: i)
  case Nil
  then show ?case by simp
next
  case (Cons app_obj rest)
  show ?case
  proof (cases "find_app_path e (name app_obj)")
    case (Inl err)
    then show ?thesis
      by (simp add: discover_apps_Cons del: discover_apps.simps)
  next
    case (Inr new_path)
    show ?thesis
    proof (cases i)
      case 0
      with Cons.prems Inr show ?thesis
        by (simp add: discover_apps_Cons discover_one_none del: discover_apps.simps)
    next
      case (Suc j)
      with Cons.prems have "fst (discover_apps e rest) ! j = rest ! j"
        by (simp add: Cons.IH)
      with Suc Inr show ?thesis
        by (simp add: discover_apps_Cons del: discover_apps.simps)
    qed
  qed
qed

lemma discover_apps_Cons_completed:
  assumes "snd (discover_apps e (app_obj # rest)) = Inr k"
  shows "\<exists>new_path k'. find_app_path e (name app_obj) = Inr new_path \<and>
           snd (discover_apps e rest) = Inr k' \<and>
           k = snd (discover_one app_obj new_path) + k' \<and>
           fst (discover_apps e (app_obj # rest)) =
             fst (discover_one app_obj new_path) # fst (discover_apps e rest)"
proof (cases "find_app_path e (name app_obj)")
  case (Inl err)
  with assms show ?thesis
    by (simp add: discover_apps_Cons del: discover_apps.simps)
next
  case (Inr new_path)
  show ?thesis
  proof (cases "snd (discover_apps e rest)")
    case (Inl err)
    with assms Inr show ?thesis
      by (simp add: discover_apps_Cons del: discover_apps.simps)
  next
    case r: (Inr k')
    with assms Inr show ?thesis
      by (simp add: discover_apps_Cons del: discover_apps.simps)
  qed
qed

lemma discover_apps_completed:
  assumes "snd (discover_apps e apps) = Inr k" and "i < length apps"
  shows "\<exists>new_path. find_app_path e (name (apps ! i)) = Inr new_path \<and>
           fst (discover_apps e apps) ! i =
             (if path_set new_path \<and> new_path \<noteq> path (apps ! i)
              then (apps ! i)\<lparr>path := new_path\<rparr> else apps ! i)"
  using assms
proof (induction apps arbitrary: i k)
  case Nil
  then show ?case by simp
next
  case (Cons app_obj rest)
  from discover_apps_Cons_completed [OF Cons.prems(1)] obtain new_path k' where
    f: "find_app_path e (name app_obj) = Inr new_path" and
    r: "snd (discover_apps e rest) = Inr k'" and
    l: "fst (discover_apps e (app_obj # rest)) =
          fst (discover_one app_obj new_path) # fst (discover_apps e rest)"
    by blast
  show ?case
  proof (cases i)
    case 0
    with f l show ?thesis
      by (simp add: discover_one_eq del: discover_apps.simps)
  next
    case (Suc j)
    with Cons.prems(2) have "j < length rest" by simp
    from Cons.IH [OF r this] obtain p where
      "find_app_path e (name (rest ! j)) = Inr p" and
      "fst (discover_apps e rest) ! j =
         (if path_set p \<and> p \<noteq> path (rest ! j) then (rest ! j)\<lparr>path := p\<rparr> else rest ! j)"
      by blast
    with Suc l show ?thesis
      by (simp del: discover_apps.simps)
  qed
qed

lemma discover_apps_count:
  assumes "snd (discover_apps e apps) = Inr k"
  shows "k = changed_count apps (fst (discover_apps e apps))"
  using assms
proof (induction apps arbitrary: k)
  case Nil
  then show ?case by (simp add: changed_count_def)
next
  case (Cons app_obj rest)
  from discover_apps_Cons_completed [OF Cons.prems] obtain new_path k' where
    r: "snd (discover_apps e rest) = Inr k'" and
    k: "k = snd (discover_one app_obj new_path) + k'" and
    l: "fst (discover_apps e (app_obj # rest)) =
          fst (discover_one app_obj new_path) # fst (discover_apps e rest)"
    by blast
  from Cons.IH [OF r] have "k' = changed_count rest (fst (discover_apps e rest))" .
  with k l show ?case
    by (simp add: discover_one_eq changed_count_def del: discover_apps.simps)
qed

lemma auto_discover_completed:
  assumes "snd (auto_discover_applications e s) = None"
  shows "\<exists>k. snd (discover_apps e (available_apps s)) = Inr k \<and>
           available_apps (fst (auto_discover_applications e s)) =
             fst (discover_apps e (available_apps s)) \<and>
           last (messages (fst (auto_discover_applications e s))) =
             (if 0 < k then DiscoveryComplete k else DiscoveryNothing)"
proof (cases "discover_apps e (available_apps s)")
  case (Pair apps r)
  show ?thesis
  proof (cases r)
    case (Inl err)
    with Pair assms show ?thesis
      by (simp add: auto_discover_applications_def Let_def)
  next
    case (Inr k)
    with Pair show ?thesis
      by (simp add: auto_discover_applications_def Let_def last_messages_notify)
  qed
qed

text \<open>
  C8.  For a name with no entry in the table of the current platform, and for every name
  on a platform other than Windows and macOS, \<^verbatim>\<open>_find_app_path\<close> returns \<^verbatim>\<open>None\<close>
  and raises nothing.  The pass over the list keeps the length of the list and leaves an
  entry for which the lookup returns \<^verbatim>\<open>None\<close> as it is, whether the pass completes or
  not.  When the pass completes, every entry is either unchanged or has its path replaced
  by what the lookup returned, the latter exactly when that path is set, not empty and
  different from the entry's path; and \<^verbatim>\<open>found_count\<close>, which the closing message
  reports, is the number of entries whose path changed.
\<close>

theorem discovery_pass:
  "((platform e = ''win32'' \<and> app_info e n = None) \<or>
    (platform e = ''darwin'' \<and> macos_app_info n = None) \<or>
    (platform e \<noteq> ''win32'' \<and> platform e \<noteq> ''darwin'') \<longrightarrow>
      find_app_path e n = Inr None) \<and>
   length (fst (discover_apps e apps)) = length apps \<and>
   (i < length apps \<and> find_app_path e (name (apps ! i)) = Inr None \<longrightarrow>
      fst (discover_apps e apps) ! i = apps ! i) \<and>
   (snd (discover_apps e apps) = Inr k \<longrightarrow>
      k = changed_count apps (fst (discover_apps e apps)) \<and>
      (i < length apps \<longrightarrow>
        (\<exists>new_path. find_app_path e (name (apps ! i)) = Inr new_path \<and>
           fst (discover_apps e apps) ! i =
             (if path_set new_path \<and> new_path \<noteq> path (apps ! i)
              then (apps ! i)\<lparr>path := new_path\<rparr> else apps ! i)))) \<and>
   (snd (auto_discover_applications e s) = None \<longrightarrow>
      last (messages (fst (auto_discover_applications e s))) =
        (if 0 < changed_count (available_apps s)
                  (available_apps (fst (auto_discover_applications e s)))
         then DiscoveryComplete
                (changed_count (available_apps s)
                   (available_apps (fst (auto_discover_applications e s))))
         else DiscoveryNothing))"
proof (intro conjI impI)
  assume "(platform e = ''win32'' \<and> app_info e n = None) \<or>
    (platform e = ''darwin'' \<and> macos_app_info n = None) \<or>
    (platform e \<noteq> ''win32'' \<and> platform e \<noteq> ''darwin'')"
  then show "find_app_path e n = Inr None"
    by (rule find_app_path_no_descriptor)
next
  show "length (fst (discover_apps e apps)) = length apps"
    by (rule length_discover_apps)
next
  assume "i < length apps \<and> find_app_path e (name (apps ! i)) = Inr None"
  then show "fst (discover_apps e apps) ! i = apps ! i"
    by (simp add: discover_apps_untouched)
next
  assume "snd (discover_apps e apps) = Inr k"
  then show "k = changed_count apps (fst (discover_apps e apps))"
    by (rule discover_apps_count)
next
  assume "snd (discover_apps e apps) = Inr k" and "i < length apps"
  then show "\<exists>new_path. find_app_path e (name (apps ! i)) = Inr new_path \<and>
           fst (discover_apps e apps) ! i =
             (if path_set new_path \<and> new_path \<noteq> path (apps ! i)
              then (apps ! i)\<lparr>path := new_path\<rparr> else apps ! i)"
    by (rule discover_apps_completed)
next
  assume "snd (auto_discover_applications e s) = None"
  from auto_discover_completed [OF this] obtain k where
    k: "snd (discover_apps e (available_apps s)) = Inr k" and
    a: "available_apps (fst (auto_discover_applications e s)) =
          fst (discover_apps e (available_apps s))" and
    m: "last (messages (fst (auto_discover_applications e s))) =
          (if 0 < k then DiscoveryComplete k else DiscoveryNothing)"
    by blast
  from discover_apps_count [OF k] a
  have "k = changed_count (available_apps s)
              (available_apps (fst (auto_discover_applications e s)))"
    by simp
  with m show "last (messages (fst (auto_discover_applications e s))) =
        (if 0 < changed_count (available_apps s)
                  (available_apps (fst (auto_discover_applications e s)))
         then DiscoveryComplete
                (changed_count (available_apps s)
                   (available_apps (fst (auto_discover_applications e s))))
         else DiscoveryNothing)"
    by simp
qed

lemma example_find_simulator:
  "find_app_path example_host ''Microsoft Flight Simulator'' =
     Inr (Some (backslashed [program_files, ''Microsoft Flight Simulator'',
                             ''FlightSimulator.exe'']))"
proof -
  have "find_win32 example_host ''Microsoft Flight Simulator'' =
     Some (backslashed [program_files, ''Microsoft Flight Simulator'', ''FlightSimulator.exe''])"
    by (simp add: find_win32_def probe_bases_find example_simulator_info
        example_probe_order [unfolded probe_order_def] example_exists)
  then show ?thesis
    by (simp add: find_app_path_def example_host_simps)
qed

lemma example_find_elevatex: "find_app_path example_host ''Elevatex'' = Inr None"
  by (simp add: find_app_path_def example_host_simps find_win32_def app_info_def)

lemma example_host_registry:
  "winreg_loaded example_host"
  "open_key example_host hkey_root key = KeyMissing"
  "path_exists example_host p = (p \<in> set example_files)"
  by (simp_all add: example_host_def)

lemma example_find_navigraph: "find_app_path example_host ''Navigraph Charts'' = Inr None"
proof -
  have files: "probe_bases example_host ''Navigraph Charts'' ''Navigraph Charts.exe''
                 [''Navigraph'', ''Navigraph Charts''] [program_files, program_files_x86] = None"
    by (simp add: example_host_simps example_host_registry example_files_def backslashed_def
        program_files_def program_files_x86_def)
  have "find_win32 example_host ''Navigraph Charts'' = None"
    by (simp add: find_win32_def app_info_def example_bases files registry_step_def
        example_host_registry del: probe_bases.simps)
  then show ?thesis
    by (simp add: find_app_path_def example_host_simps)
qed

lemma example_discover_apps:
  "discover_apps example_host (available_apps discovery_state) =
     ([\<lparr>name = ''Microsoft Flight Simulator'',
        path = Some (backslashed [program_files, ''Microsoft Flight Simulator'',
                                  ''FlightSimulator.exe'']),
        default_checked = True\<rparr>,
       \<lparr>name = ''Elevatex'', path = Some ''e.exe'', default_checked = False\<rparr>,
       \<lparr>name = ''Navigraph Charts'', path = None, default_checked = False\<rparr>],
      Inr 1)"
  by (simp add: discovery_state_def example_find_simulator example_find_elevatex
      example_find_navigraph discover_one_eq path_set_def backslashed_def program_files_def)

theorem discovery_pass_witness:
  "platform example_host = ''win32'' \<and> app_info example_host ''Elevatex'' = None \<and>
   find_app_path example_host ''Elevatex'' = Inr None \<and>
   length (fst (discover_apps example_host (available_apps discovery_state))) =
     length (available_apps discovery_state) \<and>
   1 < length (available_apps discovery_state) \<and>
   find_app_path example_host (name (available_apps discovery_state ! 1)) = Inr None \<and>
   fst (discover_apps example_host (available_apps discovery_state)) ! 1 =
     available_apps discovery_state ! 1 \<and>
   snd (discover_apps example_host (available_apps discovery_state)) = Inr 1 \<and>
   changed_count (available_apps discovery_state)
     (fst (discover_apps example_host (available_apps discovery_state))) = 1 \<and>
   snd (auto_discover_applications example_host discovery_state) = None \<and>
   last (messages (fst (auto_discover_applications example_host discovery_state))) =
     DiscoveryComplete 1"
proof -
  have p: "platform example_host = ''win32''" "app_info example_host ''Elevatex'' = None"
    by (simp_all add: example_host_simps app_info_def)
  have i: "1 < length (available_apps discovery_state)"
    by (simp add: discovery_state_def)
  have s: "snd (discover_apps example_host (available_apps discovery_state)) = Inr 1"
    by (simp add: example_discover_apps)
  have a: "snd (auto_discover_applications example_host discovery_state) = None"
    by (simp add: auto_discover_applications_def Let_def example_discover_apps)
  note inst = discovery_pass [where e = example_host and n = "''Elevatex''"
      and apps = "available_apps discovery_state" and i = 1 and k = 1 and s = discovery_state]
  from inst p have f: "find_app_path example_host ''Elevatex'' = Inr None"
    by blast
  then have g: "find_app_path example_host (name (available_apps discovery_state ! 1)) = Inr None"
    by (simp add: discovery_state_def)
  from inst have l: "length (fst (discover_apps example_host (available_apps discovery_state))) =
     length (available_apps discovery_state)"
    by blast
  from inst i g have u: "fst (discover_apps example_host (available_apps discovery_state)) ! 1 =
     available_apps discovery_state ! 1"
    by blast
  from inst s have "1 = changed_count (available_apps discovery_state)
     (fst (discover_apps example_host (available_apps discovery_state)))"
    by blast
  then have k: "changed_count (available_apps discovery_state)
     (fst (discover_apps example_host (available_apps discovery_state))) = 1"
    by (rule sym)
  from inst a have "last (messages (fst (auto_discover_applications example_host discovery_state))) =
       (if 0 < changed_count (available_apps discovery_state)
                 (available_apps (fst (auto_discover_applications example_host discovery_state)))
        then DiscoveryComplete
               (changed_count (available_apps discovery_state)
                  (available_apps (fst (auto_discover_applications example_host discovery_state))))
        else DiscoveryNothing)"
    by blast
  moreover from auto_discover_completed [OF a]
  have "available_apps (fst (auto_discover_applications example_host discovery_state)) =
        fst (discover_apps example_host (available_apps discovery_state))"
    by blast
  ultimately have m: "last (messages (fst (auto_discover_applications example_host discovery_state))) =
     DiscoveryComplete 1"
    using k by simp
  from p f l i g u s k a m show ?thesis
    by blast
qed

subsection \<open>A save that fails\<close>

text \<open>
  C9, as the claim states it, fails: on the host where the file cannot be opened for
  writing, an accepted edit shows the save error and then the success message, and the
  list in memory holds the new name.
\<close>

theorem failed_save_does_not_undo_edit:
  "write_outcome read_only_host = OpenFailed \<and>
   messages (edit_selected_application read_only_host (startup Absent) (Some 1)
               (Some (''ElevateX'', ''e.exe''))) =
     [ConfigSaveError, EditComplete ''ElevateX''] \<and>
   map name (available_apps (startup Absent)) =
     [''Microsoft Flight Simulator'', ''Elevatex'', ''Navigraph Charts''] \<and>
   map name (available_apps (edit_selected_application read_only_host (startup Absent) (Some 1)
               (Some (''ElevateX'', ''e.exe'')))) =
     [''Microsoft Flight Simulator'', ''ElevateX'', ''Navigraph Charts'']"
proof -
  have s: "\<And>apps. save_config read_only_host ((startup Absent)\<lparr>available_apps := apps\<rparr>) =
           (startup Absent)\<lparr>available_apps := apps, messages := [ConfigSaveError]\<rparr>"
    by (simp add: save_config_open_failed read_only_host_simps notify_def startup_simps)
  have "edit_selected_application read_only_host (startup Absent) (Some 1)
          (Some (''ElevateX'', ''e.exe'')) =
        (startup Absent)
          \<lparr>available_apps :=
             initial_apps[1 := (initial_apps ! 1)\<lparr>name := ''ElevateX'', path := Some ''e.exe''\<rparr>],
           messages := [ConfigSaveError, EditComplete ''ElevateX'']\<rparr>"
    by (simp add: edit_selected_application_def Let_def startup_simps
        initial_names [OF read_only_host_simps(2)] s notify_def)
  then show ?thesis
    by (simp add: startup_simps initial_apps_def read_only_host_simps)
qed

text \<open>
  C9, amended.  When a save fails, that is when it shows a message, the message is
  "Config Save Error" and the list in memory is as before the save; the operation that
  called the save is not undone, and what it shows after its save it shows all the same.
  An accepted edit, a confirmed delete and an accepted add keep their change of the list
  in memory and show their success message after the error; a checkbox toggle keeps its
  change and shows nothing after the error; a launch keeps the check states it copied
  into the list and shows its closing message after the error; a discovery pass that
  completes keeps the paths it found and shows its closing message after the error.
\<close>

theorem failed_save_keeps_the_change:
  assumes "messages (save_config e s) \<noteq> messages s"
  shows "messages (save_config e s) = messages s @ [ConfigSaveError] \<and>
    available_apps (save_config e s) = available_apps s \<and>
    (i < length (available_apps s) \<and> n \<noteq> [] \<and> p \<noteq> [] \<and>
     (str_lower e n = str_lower e (name (available_apps s ! i)) \<or>
      \<not> name_exists e n (others i (available_apps s))) \<longrightarrow>
       available_apps (edit_selected_application e s (Some i) (Some (n, p))) =
         (available_apps s)[i := (available_apps s ! i)\<lparr>name := n, path := Some p\<rparr>] \<and>
       messages (edit_selected_application e s (Some i) (Some (n, p))) =
         messages s @ [ConfigSaveError, EditComplete n]) \<and>
    (i < length (available_apps s) \<longrightarrow>
       available_apps (delete_selected_application e s (Some i) True) =
         others i (available_apps s) \<and>
       messages (delete_selected_application e s (Some i) True) =
         messages s @ [ConfigSaveError, DeleteComplete (name (available_apps s ! i))]) \<and>
    (a \<noteq> [] \<and> \<not> name_exists e a (available_apps s) \<and> p \<noteq> [] \<and>
     \<not> name_exists e n (available_apps s) \<longrightarrow>
       available_apps (add_custom_application e s (a, True) (Some (n, p))) =
         available_apps s @ [\<lparr>name = n, path = Some p, default_checked = False\<rparr>] \<and>
       messages (add_custom_application e s (a, True) (Some (n, p))) =
         messages s @ [ConfigSaveError, AppAdded n]) \<and>
    (i < length (available_apps s) \<longrightarrow>
       available_apps (handle_item_checked_changed e s i c) =
         (available_apps s)[i := (available_apps s ! i)\<lparr>default_checked := c\<rparr>] \<and>
       messages (handle_item_checked_changed e s i c) = messages s @ [ConfigSaveError]) \<and>
    (case launch_items e (widget_items s check_state) of
       (apps, calls, warnings, launched_count) \<Rightarrow>
         available_apps (launch_selected_applications e s check_state) = apps \<and>
         messages (launch_selected_applications e s check_state) =
           messages s @ warnings @
           [ConfigSaveError,
            if 0 < launched_count then LaunchComplete launched_count else LaunchNothing]) \<and>
    (snd (discover_apps e (available_apps s)) = Inr k \<longrightarrow>
       available_apps (fst (auto_discover_applications e s)) =
         fst (discover_apps e (available_apps s)) \<and>
       messages (fst (auto_discover_applications e s)) =
         messages s @
         [Discovering, ConfigSaveError,
          if 0 < k then DiscoveryComplete k else DiscoveryNothing])"
proof -
  from assms save_config_messages [of e s]
  have m: "messages (save_config e s) = messages s @ [ConfigSaveError]"
    by blast
  have u: "\<And>s'. config_file s' = config_file s \<Longrightarrow>
             messages (save_config e s') = messages s' @ [ConfigSaveError]"
    by (rule save_config_fails_alike [OF _ assms])
  show ?thesis
  proof (intro conjI impI)
    show "messages (save_config e s) = messages s @ [ConfigSaveError]"
      by (rule m)
  next
    show "available_apps (save_config e s) = available_apps s"
      by simp
  next
    assume "i < length (available_apps s) \<and> n \<noteq> [] \<and> p \<noteq> [] \<and>
     (str_lower e n = str_lower e (name (available_apps s ! i)) \<or>
      \<not> name_exists e n (others i (available_apps s)))"
    then show "available_apps (edit_selected_application e s (Some i) (Some (n, p))) =
         (available_apps s)[i := (available_apps s ! i)\<lparr>name := n, path := Some p\<rparr>]"
      by (auto simp: edit_selected_application_def Let_def)
  next
    assume "i < length (available_apps s) \<and> n \<noteq> [] \<and> p \<noteq> [] \<and>
     (str_lower e n = str_lower e (name (available_apps s ! i)) \<or>
      \<not> name_exists e n (others i (available_apps s)))"
    then show "messages (edit_selected_application e s (Some i) (Some (n, p))) =
         messages s @ [ConfigSaveError, EditComplete n]"
      by (auto simp: edit_selected_application_def Let_def notify_def u)
  next
    assume "i < length (available_apps s)"
    then show "available_apps (delete_selected_application e s (Some i) True) =
         others i (available_apps s)"
      by (simp add: delete_selected_application_def)
  next
    assume "i < length (available_apps s)"
    then show "messages (delete_selected_application e s (Some i) True) =
         messages s @ [ConfigSaveError, DeleteComplete (name (available_apps s ! i))]"
      by (simp add: delete_selected_application_def notify_def u)
  next
    assume "a \<noteq> [] \<and> \<not> name_exists e a (available_apps s) \<and> p \<noteq> [] \<and>
     \<not> name_exists e n (available_apps s)"
    then show "available_apps (add_custom_application e s (a, True) (Some (n, p))) =
         available_apps s @ [\<lparr>name = n, path = Some p, default_checked = False\<rparr>]"
      by (simp add: add_custom_application_def)
  next
    assume "a \<noteq> [] \<and> \<not> name_exists e a (available_apps s) \<and> p \<noteq> [] \<and>
     \<not> name_exists e n (available_apps s)"
    then show "messages (add_custom_application e s (a, True) (Some (n, p))) =
         messages s @ [ConfigSaveError, AppAdded n]"
      by (simp add: add_custom_application_def notify_def u)
  next
    assume "i < length (available_apps s)"
    then show "available_apps (handle_item_checked_changed e s i c) =
         (available_apps s)[i := (available_apps s ! i)\<lparr>default_checked := c\<rparr>]"
      by (simp add: handle_item_checked_changed_def)
  next
    assume "i < length (available_apps s)"
    then show "messages (handle_item_checked_changed e s i c) = messages s @ [ConfigSaveError]"
      by (simp add: handle_item_checked_changed_def u)
  next
    show "case launch_items e (widget_items s check_state) of
       (apps, calls, warnings, launched_count) \<Rightarrow>
         available_apps (launch_selected_applications e s check_state) = apps \<and>
         messages (launch_selected_applications e s check_state) =
           messages s @ warnings @
           [ConfigSaveError,
            if 0 < launched_count then LaunchComplete launched_count else LaunchNothing]"
    proof (cases "launch_items e (widget_items s check_state)")
      case (fields apps calls warnings launched_count)
      then show ?thesis
        by (simp add: launch_selected_applications_def notify_def u)
    qed
  next
    assume d: "snd (discover_apps e (available_apps s)) = Inr k"
    then obtain apps where q: "discover_apps e (available_apps s) = (apps, Inr k)"
      by (cases "discover_apps e (available_apps s)") simp
    then have r: "auto_discover_applications e s =
        (notify (save_config e
                   ((notify s Discovering)
                      \<lparr>available_apps := fst (discover_apps e (available_apps s))\<rparr>))
           (if 0 < k then DiscoveryComplete k else DiscoveryNothing), None)"
      by (simp add: auto_discover_applications_def Let_def)
    show "available_apps (fst (auto_discover_applications e s)) =
         fst (discover_apps e (available_apps s))"
      by (simp add: r)
    show "messages (fst (auto_discover_applications e s)) =
         messages s @
         [Discovering, ConfigSaveError,
          if 0 < k then DiscoveryComplete k else DiscoveryNothing]"
      by (simp add: r notify_def u)
  qed
qed

lemma read_only_linux_host_simps:
  "write_outcome read_only_linux_host = OpenFailed"
  "str_lower read_only_linux_host = lower"
  "platform read_only_linux_host = ''linux''"
  by (simp_all add: read_only_linux_host_def read_only_host_def example_host_def)

lemma read_only_linux_launch:
  "launch_items read_only_linux_host (widget_items (startup Absent) (\<lambda>i. True)) =
     ([\<lparr>name = ''Microsoft Flight Simulator'', path = None, default_checked = True\<rparr>,
       \<lparr>name = ''Elevatex'', path = None, default_checked = True\<rparr>,
       \<lparr>name = ''Navigraph Charts'', path = None, default_checked = True\<rparr>],
      [],
      [MissingPath ''Microsoft Flight Simulator'', MissingPath ''Elevatex'',
       MissingPath ''Navigraph Charts''],
      0)"
proof -
  have "widget_items (startup Absent) (\<lambda>i. True) = map (\<lambda>app. (app, True)) initial_apps"
    by (simp add: widget_items_def startup_simps initial_apps_def upt_rec)
  then show ?thesis
    by (simp add: initial_apps_def launchable_def)
qed

lemma read_only_linux_discover:
  "discover_apps read_only_linux_host (available_apps (startup Absent)) = (initial_apps, Inr 0)"
  by (simp add: startup_simps initial_apps_def find_app_path_def read_only_linux_host_simps
      discover_one_none)

theorem failed_save_keeps_the_change_witness:
  "messages (save_config read_only_linux_host (startup Absent)) \<noteq> messages (startup Absent) \<and>
   messages (save_config read_only_linux_host (startup Absent)) = [ConfigSaveError] \<and>
   available_apps (edit_selected_application read_only_linux_host (startup Absent) (Some 1)
                     (Some (''ElevateX'', ''e.exe''))) =
     initial_apps[1 := (initial_apps ! 1)\<lparr>name := ''ElevateX'', path := Some ''e.exe''\<rparr>] \<and>
   messages (edit_selected_application read_only_linux_host (startup Absent) (Some 1)
               (Some (''ElevateX'', ''e.exe''))) =
     [ConfigSaveError, EditComplete ''ElevateX''] \<and>
   available_apps (delete_selected_application read_only_linux_host (startup Absent) (Some 1) True) =
     others 1 initial_apps \<and>
   messages (delete_selected_application read_only_linux_host (startup Absent) (Some 1) True) =
     [ConfigSaveError, DeleteComplete (name (initial_apps ! 1))] \<and>
   available_apps (add_custom_application read_only_linux_host (startup Absent) (''Tool'', True)
                     (Some (''FSUIPC'', ''e.exe''))) =
     initial_apps @ [\<lparr>name = ''FSUIPC'', path = Some ''e.exe'', default_checked = False\<rparr>] \<and>
   messages (add_custom_application read_only_linux_host (startup Absent) (''Tool'', True)
               (Some (''FSUIPC'', ''e.exe''))) =
     [ConfigSaveError, AppAdded ''FSUIPC''] \<and>
   available_apps (handle_item_checked_changed read_only_linux_host (startup Absent) 1 True) =
     initial_apps[1 := (initial_apps ! 1)\<lparr>default_checked := True\<rparr>] \<and>
   messages (handle_item_checked_changed read_only_linux_host (startup Absent) 1 True) =
     [ConfigSaveError] \<and>
   map default_checked
     (available_apps (launch_selected_applications read_only_linux_host (startup Absent)
                        (\<lambda>i. True))) = [True, True, True] \<and>
   messages (launch_selected_applications read_only_linux_host (startup Absent) (\<lambda>i. True)) =
     [MissingPath ''Microsoft Flight Simulator'', MissingPath ''Elevatex'',
      MissingPath ''Navigraph Charts'', ConfigSaveError, LaunchNothing] \<and>
   snd (discover_apps read_only_linux_host (available_apps (startup Absent))) = Inr 0 \<and>
   messages (fst (auto_discover_applications read_only_linux_host (startup Absent))) =
     [Discovering, ConfigSaveError, DiscoveryNothing]"
proof -
  have f: "messages (save_config read_only_linux_host (startup Absent)) \<noteq>
           messages (startup Absent)"
    by (simp add: save_config_open_failed read_only_linux_host_simps notify_def)
  note inst = failed_save_keeps_the_change [OF f, where i = 1 and n = "''ElevateX''"
      and p = "''e.exe''" and a = "''Tool''" and c = True and check_state = "\<lambda>i. True"
      and k = 0]
  note inst2 = failed_save_keeps_the_change [OF f, where i = 1 and n = "''FSUIPC''"
      and p = "''e.exe''" and a = "''Tool''" and c = True and check_state = "\<lambda>i. True"
      and k = 0]
  from inst have a: "messages (save_config read_only_linux_host (startup Absent)) = [ConfigSaveError]"
    by (simp add: startup_simps)
  from inst initial_names [OF read_only_linux_host_simps(2)] have b:
    "available_apps (edit_selected_application read_only_linux_host (startup Absent) (Some 1)
                     (Some (''ElevateX'', ''e.exe''))) =
     initial_apps[1 := (initial_apps ! 1)\<lparr>name := ''ElevateX'', path := Some ''e.exe''\<rparr>]"
    "messages (edit_selected_application read_only_linux_host (startup Absent) (Some 1)
               (Some (''ElevateX'', ''e.exe''))) =
     [ConfigSaveError, EditComplete ''ElevateX'']"
    "available_apps (delete_selected_application read_only_linux_host (startup Absent) (Some 1) True) =
     others 1 initial_apps"
    "messages (delete_selected_application read_only_linux_host (startup Absent) (Some 1) True) =
     [ConfigSaveError, DeleteComplete (name (initial_apps ! 1))]"
    "available_apps (handle_item_checked_changed read_only_linux_host (startup Absent) 1 True) =
     initial_apps[1 := (initial_apps ! 1)\<lparr>default_checked := True\<rparr>]"
    "messages (handle_item_checked_changed read_only_linux_host (startup Absent) 1 True) =
     [ConfigSaveError]"
    by (simp_all add: startup_simps)
  from inst2 initial_names [OF read_only_linux_host_simps(2)] have c:
    "available_apps (add_custom_application read_only_linux_host (startup Absent) (''Tool'', True)
                     (Some (''FSUIPC'', ''e.exe''))) =
     initial_apps @ [\<lparr>name = ''FSUIPC'', path = Some ''e.exe'', default_checked = False\<rparr>]"
    "messages (add_custom_application read_only_linux_host (startup Absent) (''Tool'', True)
               (Some (''FSUIPC'', ''e.exe''))) =
     [ConfigSaveError, AppAdded ''FSUIPC'']"
    by (simp_all add: startup_simps)
  from inst have d:
    "map default_checked
     (available_apps (launch_selected_applications read_only_linux_host (startup Absent)
                        (\<lambda>i. True))) = [True, True, True]"
    "messages (launch_selected_applications read_only_linux_host (startup Absent) (\<lambda>i. True)) =
     [MissingPath ''Microsoft Flight Simulator'', MissingPath ''Elevatex'',
      MissingPath ''Navigraph Charts'', ConfigSaveError, LaunchNothing]"
    by (simp_all add: read_only_linux_launch startup_simps)
  have g: "snd (discover_apps read_only_linux_host (available_apps (startup Absent))) = Inr 0"
    by (simp add: read_only_linux_discover)
  with inst have h:
    "messages (fst (auto_discover_applications read_only_linux_host (startup Absent))) =
     [Discovering, ConfigSaveError, DiscoveryNothing]"
    by (simp add: startup_simps)
  from f a b c d g h show ?thesis
    by blast
qed

end
